theory Spec2Isabelle
  imports Complex_Main
begin

section \<open>Data model of the in-memory bank (database.py, models.py)\<close>

text \<open>
  Monetary values are Python floats. \<open>pyfloat\<close> has the values a float can take: a
  finite number, held by its exact rational value, the two infinities and NaN.
  Comparison and arithmetic follow IEEE 754 on these values: every comparison with NaN is
  false, NaN is absorbing, and the difference of two equal infinities is NaN. Arithmetic
  on finite values is exact: the model leaves out binary representation error (IEEE
  rounding is monotone and keeps 0 and the sign, so it changes no comparison with 0),
  overflow (whose result is an infinity, a value of the model) and the sign of zero.
  Python's \<^verbatim>\<open>round(x, 2)\<close> rounds a finite value to the nearest
  multiple of 0.01, breaks ties to the even neighbour, and returns an infinity or NaN as
  it is; \<open>round2\<close> does the same on the exact value.
  Identifiers are Python's unbounded integers. Timestamps (\<^verbatim>\<open>datetime.now()\<close>) and the
  random check digit of an account number are inputs of the operations that read them.
\<close>

datatype pyfloat = Fin rat | PInf | NInf | NaN

instantiation pyfloat :: "{uminus, minus, ord, comm_monoid_add, numeral}"
begin

definition zero_pyfloat :: pyfloat where
  "zero_pyfloat = Fin 0"

definition one_pyfloat :: pyfloat where
  "one_pyfloat = Fin 1"

fun plus_pyfloat :: "pyfloat \<Rightarrow> pyfloat \<Rightarrow> pyfloat" where
  "plus_pyfloat (Fin a) (Fin b) = Fin (a + b)"
| "plus_pyfloat NaN _ = NaN"
| "plus_pyfloat _ NaN = NaN"
| "plus_pyfloat PInf NInf = NaN"
| "plus_pyfloat NInf PInf = NaN"
| "plus_pyfloat PInf _ = PInf"
| "plus_pyfloat _ PInf = PInf"
| "plus_pyfloat NInf _ = NInf"
| "plus_pyfloat _ NInf = NInf"

fun uminus_pyfloat :: "pyfloat \<Rightarrow> pyfloat" where
  "uminus_pyfloat (Fin a) = Fin (- a)"
| "uminus_pyfloat PInf = NInf"
| "uminus_pyfloat NInf = PInf"
| "uminus_pyfloat NaN = NaN"

definition minus_pyfloat :: "pyfloat \<Rightarrow> pyfloat \<Rightarrow> pyfloat" where
  "minus_pyfloat a b = a + (- b)"

fun less_pyfloat :: "pyfloat \<Rightarrow> pyfloat \<Rightarrow> bool" where
  "less_pyfloat (Fin a) (Fin b) = (a < b)"
| "less_pyfloat (Fin a) PInf = True"
| "less_pyfloat NInf (Fin b) = True"
| "less_pyfloat NInf PInf = True"
| "less_pyfloat _ _ = False"

fun less_eq_pyfloat :: "pyfloat \<Rightarrow> pyfloat \<Rightarrow> bool" where
  "less_eq_pyfloat (Fin a) (Fin b) = (a \<le> b)"
| "less_eq_pyfloat (Fin a) PInf = True"
| "less_eq_pyfloat NInf (Fin b) = True"
| "less_eq_pyfloat NInf NInf = True"
| "less_eq_pyfloat NInf PInf = True"
| "less_eq_pyfloat PInf PInf = True"
| "less_eq_pyfloat _ _ = False"

instance
proof (standard, goal_cases)
  case (1 x y z)
  show ?case by (cases x; cases y; cases z; simp)
next
  case (2 x y)
  show ?case by (cases x; cases y; simp)
next
  case (3 x)
  show ?case by (cases x; simp add: zero_pyfloat_def)
qed

end


type_synonym money = pyfloat
type_synonym datetime = int

datatype TipoTransacao = DEPOSITO | SAQUE

datatype TipoConta = CORRENTE | POUPANCA

fun tipo_transacao_value :: "TipoTransacao \<Rightarrow> string" where
  "tipo_transacao_value DEPOSITO = ''deposito''"
| "tipo_transacao_value SAQUE = ''saque''"

fun tipo_conta_value :: "TipoConta \<Rightarrow> string" where
  "tipo_conta_value CORRENTE = ''corrente''"
| "tipo_conta_value POUPANCA = ''poupanca''"

text \<open>
  Every failure of database.py is a \<^verbatim>\<open>ValueError\<close> told apart by its message; the
  constructors below are those messages. \<open>KeyError\<close> is the exception of a dictionary
  subscript on a missing key, \<open>ValorNaoPositivo\<close> the one of the schema validator of
  models.py.
  \<^item> \<open>CpfJaCadastrado\<close>: "CPF ja cadastrado" (DuplicateIdentity in the specification);
  \<^item> \<open>UsuarioNaoEncontrado\<close>: "Usuario nao encontrado" (UnknownUser);
  \<^item> \<open>UsuarioJaPossuiConta\<close>: "Usuario ja possui uma conta" (AccountAlreadyExists);
  \<^item> \<open>ContaNaoEncontrada\<close>: "Conta nao encontrada" (AccountNotFound);
  \<^item> \<open>SaldoInsuficiente\<close>: "Saldo insuficiente para realizar o saque" (InsufficientFunds).
\<close>

datatype error =
    CpfJaCadastrado
  | UsuarioNaoEncontrado
  | UsuarioJaPossuiConta
  | ContaNaoEncontrada
  | SaldoInsuficiente
  | KeyError
  | ValorNaoPositivo

record usuario =
  u_id :: int
  u_nome :: string
  u_cpf :: string
  u_senha_hash :: string
  u_data_criacao :: datetime

record conta =
  c_id :: int
  c_numero_conta :: string
  c_tipo_conta :: string
  c_saldo :: money
  c_usuario_id :: int
  c_data_criacao :: datetime

record transacao =
  t_id :: int
  t_conta_id :: int
  t_tipo :: string
  t_valor :: money
  t_descricao :: "string option"
  t_saldo_anterior :: money
  t_saldo_posterior :: money
  t_data_transacao :: datetime

record estatisticas =
  total_depositos :: money
  total_saques :: money
  quantidade_transacoes :: nat

record db =
  usuarios :: "int \<rightharpoonup> usuario"
  contas :: "int \<rightharpoonup> conta"
  transacoes :: "int \<rightharpoonup> transacao"
  usuario_id_counter :: int
  conta_id_counter :: int
  transacao_id_counter :: int
  cpf_to_usuario_id :: "string \<rightharpoonup> int"
  usuario_id_to_conta_id :: "int \<rightharpoonup> int"
  conta_id_to_transacoes :: "int \<rightharpoonup> int list"

definition db_init :: db where
  "db_init = \<lparr> usuarios = Map.empty, contas = Map.empty, transacoes = Map.empty,
     usuario_id_counter = 1, conta_id_counter = 1, transacao_id_counter = 1,
     cpf_to_usuario_id = Map.empty, usuario_id_to_conta_id = Map.empty,
     conta_id_to_transacoes = Map.empty \<rparr>"

section \<open>Python primitives\<close>

definition round_half_even :: "rat \<Rightarrow> int" where
  "round_half_even x =
     (let f = \<lfloor>x\<rfloor>; r = x - of_int f
      in if r < 1 / 2 then f
         else if 1 / 2 < r then f + 1
         else if even f then f else f + 1)"

fun round2 :: "money \<Rightarrow> money" where
  "round2 (Fin x) = Fin (of_int (round_half_even (x * 100)) / 100)"
| "round2 PInf = PInf"
| "round2 NInf = NInf"
| "round2 NaN = NaN"

text \<open>\<^verbatim>\<open>sum(...)\<close> adds from the left, starting at 0.\<close>

definition py_sum :: "money list \<Rightarrow> money" where
  "py_sum xs = foldl (+) 0 xs"

fun digits_of :: "nat \<Rightarrow> string" where
  "digits_of n =
     (if n < 10 then [char_of (48 + n)]
      else digits_of (n div 10) @ [char_of (48 + n mod 10)])"

declare digits_of.simps [simp del]

definition py_str :: "int \<Rightarrow> string" where
  "py_str i = (if i < 0 then CHR ''-'' # digits_of (nat (- i)) else digits_of (nat i))"

text \<open>\<^verbatim>\<open>str.zfill(width)\<close>: zeros go after a leading sign.\<close>

definition zfill :: "nat \<Rightarrow> string \<Rightarrow> string" where
  "zfill width s =
     (if width \<le> length s then s
      else case s of
             c # rest \<Rightarrow>
               if c = CHR ''+'' \<or> c = CHR ''-''
               then c # replicate (width - length s) CHR ''0'' @ rest
               else replicate (width - length s) CHR ''0'' @ s
           | [] \<Rightarrow> replicate width CHR ''0'')"

section \<open>Schema validation (models.py)\<close>

text \<open>
  \<open>TransacaoBase.validar_valor_positivo\<close>: rejects \<open>v \<le> 0\<close>, and rounds what it
  lets through, in this order.
\<close>

definition validar_valor_positivo :: "money \<Rightarrow> error + money" where
  "validar_valor_positivo v = (if v \<le> 0 then Inl ValorNaoPositivo else Inr (round2 v))"

text \<open>
  Building a \<open>TransacaoBase\<close> (so also a \<open>TransacaoCreate\<close> request body or a
  \<open>Transacao\<close> response): the field constraint \<^verbatim>\<open>gt=0\<close> on \<open>valor\<close>, then the
  validator, and \<^verbatim>\<open>max_length=200\<close> on \<open>descricao\<close>. \<open>None\<close> is pydantic's
  \<^verbatim>\<open>ValidationError\<close>, which is a \<^verbatim>\<open>ValueError\<close>.
\<close>

definition transacao_base :: "money \<Rightarrow> string option \<Rightarrow> (money \<times> string option) option" where
  "transacao_base valor descricao =
     (if \<not> 0 < valor then None
      else case validar_valor_positivo valor of
             Inl e \<Rightarrow> None
           | Inr v \<Rightarrow>
               (case descricao of
                  None \<Rightarrow> Some (v, None)
                | Some d \<Rightarrow> if length d \<le> 200 then Some (v, Some d) else None))"

section \<open>DatabaseSimulator (database.py)\<close>

text \<open>
  A method that mutates the store returns its result together with the store it leaves
  behind, also when it raises: the second component is the state the caller sees after
  catching the exception.
\<close>

definition gerar_numero_conta :: "db \<Rightarrow> int \<Rightarrow> string" where
  "gerar_numero_conta s digito =
     ''0001'' @ ''-'' @ zfill 6 (py_str (conta_id_counter s)) @ ''-'' @ py_str digito"

definition criar_usuario ::
  "db \<Rightarrow> string \<Rightarrow> string \<Rightarrow> string \<Rightarrow> datetime \<Rightarrow> (error + usuario) \<times> db" where
  "criar_usuario s nome cpf senha_hash agora =
     (if cpf \<in> dom (cpf_to_usuario_id s) then (Inl CpfJaCadastrado, s)
      else
        let usuario_id = usuario_id_counter s;
            s1 = s\<lparr>usuario_id_counter := usuario_id_counter s + 1\<rparr>;
            usuario = \<lparr> u_id = usuario_id, u_nome = nome, u_cpf = cpf,
                        u_senha_hash = senha_hash, u_data_criacao = agora \<rparr>;
            s2 = s1\<lparr>usuarios := (usuarios s1)(usuario_id \<mapsto> usuario)\<rparr>;
            s3 = s2\<lparr>cpf_to_usuario_id := (cpf_to_usuario_id s2)(cpf \<mapsto> usuario_id)\<rparr>
        in (Inr usuario, s3))"

text \<open>\<^verbatim>\<open>if usuario_id:\<close> is false for a missing key and for the id 0.\<close>

definition obter_usuario_por_cpf :: "db \<Rightarrow> string \<Rightarrow> usuario option" where
  "obter_usuario_por_cpf s cpf =
     (case cpf_to_usuario_id s cpf of
        None \<Rightarrow> None
      | Some usuario_id \<Rightarrow> if usuario_id \<noteq> 0 then usuarios s usuario_id else None)"

definition obter_usuario_por_id :: "db \<Rightarrow> int \<Rightarrow> usuario option" where
  "obter_usuario_por_id s usuario_id = usuarios s usuario_id"

definition criar_conta ::
  "db \<Rightarrow> int \<Rightarrow> TipoConta \<Rightarrow> int \<Rightarrow> datetime \<Rightarrow> (error + conta) \<times> db" where
  "criar_conta s usuario_id tipo_conta digito agora =
     (if usuario_id \<notin> dom (usuarios s) then (Inl UsuarioNaoEncontrado, s)
      else if usuario_id \<in> dom (usuario_id_to_conta_id s) then (Inl UsuarioJaPossuiConta, s)
      else
        let conta_id = conta_id_counter s;
            s1 = s\<lparr>conta_id_counter := conta_id_counter s + 1\<rparr>;
            conta = \<lparr> c_id = conta_id, c_numero_conta = gerar_numero_conta s1 digito,
                      c_tipo_conta = tipo_conta_value tipo_conta, c_saldo = 0,
                      c_usuario_id = usuario_id, c_data_criacao = agora \<rparr>;
            s2 = s1\<lparr>contas := (contas s1)(conta_id \<mapsto> conta)\<rparr>;
            s3 = s2\<lparr>usuario_id_to_conta_id :=
                      (usuario_id_to_conta_id s2)(usuario_id \<mapsto> conta_id)\<rparr>;
            s4 = s3\<lparr>conta_id_to_transacoes := (conta_id_to_transacoes s3)(conta_id \<mapsto> [])\<rparr>
        in (Inr conta, s4))"

definition obter_conta_por_usuario :: "db \<Rightarrow> int \<Rightarrow> conta option" where
  "obter_conta_por_usuario s usuario_id =
     (case usuario_id_to_conta_id s usuario_id of
        None \<Rightarrow> None
      | Some conta_id \<Rightarrow> if conta_id \<noteq> 0 then contas s conta_id else None)"

definition obter_conta_por_id :: "db \<Rightarrow> int \<Rightarrow> conta option" where
  "obter_conta_por_id s conta_id = contas s conta_id"

definition atualizar_saldo :: "db \<Rightarrow> int \<Rightarrow> money \<Rightarrow> db" where
  "atualizar_saldo s conta_id novo_saldo =
     (case contas s conta_id of
        None \<Rightarrow> s
      | Some conta \<Rightarrow>
          s\<lparr>contas := (contas s)(conta_id \<mapsto> conta\<lparr>c_saldo := round2 novo_saldo\<rparr>)\<rparr>)"

definition criar_transacao ::
  "db \<Rightarrow> int \<Rightarrow> TipoTransacao \<Rightarrow> money \<Rightarrow> string option \<Rightarrow> datetime
     \<Rightarrow> (error + transacao) \<times> db" where
  "criar_transacao s conta_id tipo valor descricao agora =
     (case obter_conta_por_id s conta_id of
        None \<Rightarrow> (Inl ContaNaoEncontrada, s)
      | Some conta \<Rightarrow>
          let saldo_anterior = c_saldo conta
          in if tipo = SAQUE \<and> saldo_anterior < valor then (Inl SaldoInsuficiente, s)
             else
               let saldo_posterior =
                     (if tipo = SAQUE then saldo_anterior - valor
                      else saldo_anterior + valor);
                   transacao_id = transacao_id_counter s;
                   s1 = s\<lparr>transacao_id_counter := transacao_id_counter s + 1\<rparr>;
                   transacao = \<lparr> t_id = transacao_id, t_conta_id = conta_id,
                                  t_tipo = tipo_transacao_value tipo,
                                  t_valor = round2 valor, t_descricao = descricao,
                                  t_saldo_anterior = round2 saldo_anterior,
                                  t_saldo_posterior = round2 saldo_posterior,
                                  t_data_transacao = agora \<rparr>;
                   s2 = s1\<lparr>transacoes := (transacoes s1)(transacao_id \<mapsto> transacao)\<rparr>
               in (case conta_id_to_transacoes s2 conta_id of
                     None \<Rightarrow> (Inl KeyError, s2)
                   | Some ids \<Rightarrow>
                       let s3 = s2\<lparr>conta_id_to_transacoes :=
                                   (conta_id_to_transacoes s2)(conta_id \<mapsto> ids @ [transacao_id])\<rparr>
                       in (Inr transacao, atualizar_saldo s3 conta_id saldo_posterior)))"

text \<open>The comprehension \<^verbatim>\<open>[self.transacoes[tid] for tid in transacao_ids]\<close>.\<close>

fun lookup_all :: "(int \<rightharpoonup> transacao) \<Rightarrow> int list \<Rightarrow> error + transacao list" where
  "lookup_all m [] = Inr []"
| "lookup_all m (tid # tids) =
     (case m tid of
        None \<Rightarrow> Inl KeyError
      | Some t \<Rightarrow> (case lookup_all m tids of Inl e \<Rightarrow> Inl e | Inr ts \<Rightarrow> Inr (t # ts)))"

definition obter_transacoes_por_conta :: "db \<Rightarrow> int \<Rightarrow> error + transacao list" where
  "obter_transacoes_por_conta s conta_id =
     lookup_all (transacoes s)
       (case conta_id_to_transacoes s conta_id of None \<Rightarrow> [] | Some ids \<Rightarrow> ids)"

definition obter_estatisticas_conta :: "db \<Rightarrow> int \<Rightarrow> error + estatisticas" where
  "obter_estatisticas_conta s conta_id =
     (case obter_transacoes_por_conta s conta_id of
        Inl e \<Rightarrow> Inl e
      | Inr ts \<Rightarrow>
          Inr \<lparr> total_depositos =
                  round2 (py_sum (map t_valor
                    (filter (\<lambda>t. t_tipo t = tipo_transacao_value DEPOSITO) ts))),
                total_saques =
                  round2 (py_sum (map t_valor
                    (filter (\<lambda>t. t_tipo t = tipo_transacao_value SAQUE) ts))),
                quantidade_transacoes = length ts \<rparr>)"

section \<open>Transaction endpoints (main.py)\<close>

text \<open>
  \<open>realizar_deposito\<close> and \<open>realizar_saque\<close> have one body and differ in the kind
  they pass on. The request body is validated before the handler runs (422 otherwise);
  \<open>cpf_atual\<close> is the CPF that the access-token dependency has resolved. The handler
  turns a \<^verbatim>\<open>ValueError\<close> of the \<^verbatim>\<open>try\<close> block into 400, and the \<^verbatim>\<open>try\<close> block
  holds both the call of \<open>criar_transacao\<close> and the construction of the response
  \<open>Transacao\<close>; any other exception is a 500.
\<close>

datatype http_error = Http400 | Http404 | Http422 | Http500

definition realizar_transacao ::
  "TipoTransacao \<Rightarrow> db \<Rightarrow> string \<Rightarrow> money \<Rightarrow> string option \<Rightarrow> datetime
     \<Rightarrow> (http_error + transacao) \<times> db" where
  "realizar_transacao tipo s cpf_atual valor descricao agora =
     (case transacao_base valor descricao of
        None \<Rightarrow> (Inl Http422, s)
      | Some (v, d) \<Rightarrow>
          (case obter_usuario_por_cpf s cpf_atual of
             None \<Rightarrow> (Inl Http404, s)
           | Some usuario \<Rightarrow>
               (case obter_conta_por_usuario s (u_id usuario) of
                  None \<Rightarrow> (Inl Http404, s)
                | Some conta \<Rightarrow>
                    (case criar_transacao s (c_id conta) tipo v d agora of
                       (Inl e, s') \<Rightarrow> (Inl (if e = KeyError then Http500 else Http400), s')
                     | (Inr t, s') \<Rightarrow>
                         (case transacao_base (t_valor t) (t_descricao t) of
                            None \<Rightarrow> (Inl Http400, s')
                          | Some (v', d') \<Rightarrow>
                              (Inr (t\<lparr>t_valor := v', t_descricao := d'\<rparr>), s'))))))"

definition realizar_deposito ::
  "db \<Rightarrow> string \<Rightarrow> money \<Rightarrow> string option \<Rightarrow> datetime \<Rightarrow> (http_error + transacao) \<times> db" where
  "realizar_deposito = realizar_transacao DEPOSITO"

definition realizar_saque ::
  "db \<Rightarrow> string \<Rightarrow> money \<Rightarrow> string option \<Rightarrow> datetime \<Rightarrow> (http_error + transacao) \<times> db" where
  "realizar_saque = realizar_transacao SAQUE"

section \<open>Runs of the store\<close>

text \<open>
  A run is a list of calls on a fresh store. A call that raises leaves the store as the
  method left it, and the run goes on, as the API layer does after catching the error.
\<close>

datatype op =
    CriarUsuario string string string datetime
  | CriarConta int TipoConta int datetime
  | CriarTransacao int TipoTransacao money "string option" datetime
  | AtualizarSaldo int money

fun step :: "db \<Rightarrow> op \<Rightarrow> db" where
  "step s (CriarUsuario nome cpf senha_hash agora) = snd (criar_usuario s nome cpf senha_hash agora)"
| "step s (CriarConta usuario_id tipo_conta digito agora) =
     snd (criar_conta s usuario_id tipo_conta digito agora)"
| "step s (CriarTransacao conta_id tipo valor descricao agora) =
     snd (criar_transacao s conta_id tipo valor descricao agora)"
| "step s (AtualizarSaldo conta_id novo_saldo) = atualizar_saldo s conta_id novo_saldo"

definition exec :: "op list \<Rightarrow> db" where
  "exec ops = foldl step db_init ops"

text \<open>The core operations: register, open account, apply transaction.\<close>

fun core_op :: "op \<Rightarrow> bool" where
  "core_op (AtualizarSaldo _ _) = False"
| "core_op _ = True"

section \<open>Replaying a ledger\<close>

text \<open>
  The replay of the specification: start from a balance, and let every transaction's
  balance-before meet the balance reached so far and its balance-after become the next
  one. \<open>None\<close> is a gap in the chain.
\<close>

fun replay_ledger :: "money \<Rightarrow> transacao list \<Rightarrow> money option" where
  "replay_ledger b [] = Some b"
| "replay_ledger b (t # ts) =
     (if t_saldo_anterior t = b then replay_ledger (t_saldo_posterior t) ts else None)"



section \<open>Invariants of the store\<close>

text \<open>
  The side indexes agree with the primary dictionaries, identifiers stay below their
  counters, stored balances are rounded, and every index list is ascending.
\<close>

definition usuarios_ok :: "db \<Rightarrow> bool" where
  "usuarios_ok s \<longleftrightarrow>
     (\<forall>uid u. usuarios s uid = Some u \<longrightarrow>
        u_id u = uid \<and> uid < usuario_id_counter s \<and> cpf_to_usuario_id s (u_cpf u) = Some uid) \<and>
     (\<forall>cpf uid. cpf_to_usuario_id s cpf = Some uid \<longrightarrow>
        (\<exists>u. usuarios s uid = Some u \<and> u_cpf u = cpf))"

definition contas_ok :: "db \<Rightarrow> bool" where
  "contas_ok s \<longleftrightarrow>
     (\<forall>cid c. contas s cid = Some c \<longrightarrow>
        c_id c = cid \<and> cid < conta_id_counter s \<and>
        usuario_id_to_conta_id s (c_usuario_id c) = Some cid \<and>
        round2 (c_saldo c) = c_saldo c) \<and>
     (\<forall>uid cid. usuario_id_to_conta_id s uid = Some cid \<longrightarrow>
        (\<exists>c. contas s cid = Some c \<and> c_usuario_id c = uid)) \<and>
     dom (conta_id_to_transacoes s) = dom (contas s)"

definition transacoes_ok :: "db \<Rightarrow> bool" where
  "transacoes_ok s \<longleftrightarrow>
     (\<forall>tid t. transacoes s tid = Some t \<longrightarrow>
        t_id t = tid \<and> tid < transacao_id_counter s \<and>
        (\<exists>l. conta_id_to_transacoes s (t_conta_id t) = Some l \<and> tid \<in> set l)) \<and>
     (\<forall>cid l. conta_id_to_transacoes s cid = Some l \<longrightarrow>
        sorted_wrt (<) l \<and>
        (\<forall>tid\<in>set l. \<exists>t. transacoes s tid = Some t \<and> t_conta_id t = cid))"

definition wf :: "db \<Rightarrow> bool" where
  "wf s \<longleftrightarrow> usuarios_ok s \<and> contas_ok s \<and> transacoes_ok s"

definition ids_sequential :: "db \<Rightarrow> bool" where
  "ids_sequential s \<longleftrightarrow>
     1 \<le> usuario_id_counter s \<and> dom (usuarios s) = {1..<usuario_id_counter s}"

text \<open>
  Two properties of runs of the core operations: every account's ledger replays to its
  balance, and no balance is negative.
\<close>

definition ledger_ok :: "db \<Rightarrow> bool" where
  "ledger_ok s \<longleftrightarrow>
     (\<forall>cid c. contas s cid = Some c \<longrightarrow>
        (\<exists>ts. obter_transacoes_por_conta s cid = Inr ts \<and>
              replay_ledger 0 ts = Some (c_saldo c)))"


section \<open>Rounding and list lemmas\<close>

lemma numeral_pyfloat: "numeral k = Fin (numeral k)"
proof (induction k)
  case One
  show ?case by (simp add: one_pyfloat_def)
next
  case (Bit0 k)
  have "numeral (num.Bit0 k) = (numeral k + numeral k :: pyfloat)"
    by (rule numeral_Bit0)
  also have "\<dots> = Fin (numeral k + numeral k)"
    by (simp only: Bit0 plus_pyfloat.simps)
  also have "\<dots> = Fin (numeral (num.Bit0 k))"
    by (simp only: numeral_Bit0)
  finally show ?case .
next
  case (Bit1 k)
  have "numeral (num.Bit1 k) = (numeral k + numeral k + 1 :: pyfloat)"
    by (rule numeral_Bit1)
  also have "\<dots> = Fin (numeral k + numeral k + 1)"
    by (simp only: Bit1 plus_pyfloat.simps one_pyfloat_def)
  also have "\<dots> = Fin (numeral (num.Bit1 k))"
    by (simp only: numeral_Bit1)
  finally show ?case .
qed

lemma round_half_even_of_int: "round_half_even (of_int n) = n"
  by (simp add: round_half_even_def)

lemma round2_idem: "round2 (round2 x) = round2 x"
  by (cases x) (simp_all add: round_half_even_of_int)



lemma round2_zero: "round2 0 = 0"
  by (simp add: zero_pyfloat_def round_half_even_def)




lemma exec_Nil: "exec [] = db_init"
  by (simp add: exec_def)

lemma exec_snoc: "exec (ops @ [x]) = step (exec ops) x"
  by (simp add: exec_def)

lemma lookup_all_fresh: "tid \<notin> set l \<Longrightarrow> lookup_all (m(tid \<mapsto> t)) l = lookup_all m l"
  by (induction l) (auto split: option.splits sum.splits)

lemma lookup_all_snoc:
  "lookup_all m (l @ [tid]) =
     (case lookup_all m l of Inl e \<Rightarrow> Inl e
      | Inr ts \<Rightarrow> (case m tid of None \<Rightarrow> Inl KeyError | Some t \<Rightarrow> Inr (ts @ [t])))"
  by (induction l) (auto split: option.splits sum.splits)

lemma lookup_all_Inr:
  "(\<forall>tid\<in>set l. m tid \<noteq> None) \<Longrightarrow> lookup_all m l = Inr (map (\<lambda>tid. the (m tid)) l)"
  by (induction l) (auto split: option.splits sum.splits)

lemma usuarios_ok_init: "usuarios_ok db_init"
  by (simp add: usuarios_ok_def db_init_def)

lemma contas_ok_init: "contas_ok db_init"
  by (simp add: contas_ok_def db_init_def)

lemma transacoes_ok_init: "transacoes_ok db_init"
  by (simp add: transacoes_ok_def db_init_def)

lemma atualizar_saldo_fields [simp]:
  "usuarios (atualizar_saldo s cid v) = usuarios s"
  "transacoes (atualizar_saldo s cid v) = transacoes s"
  "usuario_id_counter (atualizar_saldo s cid v) = usuario_id_counter s"
  "conta_id_counter (atualizar_saldo s cid v) = conta_id_counter s"
  "transacao_id_counter (atualizar_saldo s cid v) = transacao_id_counter s"
  "cpf_to_usuario_id (atualizar_saldo s cid v) = cpf_to_usuario_id s"
  "usuario_id_to_conta_id (atualizar_saldo s cid v) = usuario_id_to_conta_id s"
  "conta_id_to_transacoes (atualizar_saldo s cid v) = conta_id_to_transacoes s"
  by (simp_all add: atualizar_saldo_def split: option.splits)

lemma atualizar_saldo_contas:
  "contas (atualizar_saldo s cid v) cid' =
     (if cid' = cid then map_option (\<lambda>c. c\<lparr>c_saldo := round2 v\<rparr>) (contas s cid)
      else contas s cid')"
  by (simp add: atualizar_saldo_def split: option.splits)

lemma criar_transacao_commit:
  assumes "contas s cid = Some c" "conta_id_to_transacoes s cid = Some l"
    and "\<not> (tipo = SAQUE \<and> c_saldo c < v)"
  shows "criar_transacao s cid tipo v d agora =
    (Inr \<lparr> t_id = transacao_id_counter s, t_conta_id = cid,
           t_tipo = tipo_transacao_value tipo, t_valor = round2 v, t_descricao = d,
           t_saldo_anterior = round2 (c_saldo c),
           t_saldo_posterior = round2 (if tipo = SAQUE then c_saldo c - v else c_saldo c + v),
           t_data_transacao = agora \<rparr>,
     s\<lparr> transacao_id_counter := transacao_id_counter s + 1,
        transacoes := (transacoes s)(transacao_id_counter s \<mapsto>
          \<lparr> t_id = transacao_id_counter s, t_conta_id = cid,
           t_tipo = tipo_transacao_value tipo, t_valor = round2 v, t_descricao = d,
           t_saldo_anterior = round2 (c_saldo c),
           t_saldo_posterior = round2 (if tipo = SAQUE then c_saldo c - v else c_saldo c + v),
           t_data_transacao = agora \<rparr>),
        conta_id_to_transacoes := (conta_id_to_transacoes s)(cid \<mapsto> l @ [transacao_id_counter s]),
        contas := (contas s)(cid \<mapsto>
          c\<lparr>c_saldo := round2 (if tipo = SAQUE then c_saldo c - v else c_saldo c + v)\<rparr>) \<rparr>)"
  using assms
  by (simp add: criar_transacao_def obter_conta_por_id_def atualizar_saldo_def Let_def)

lemma usuario_fresh: "usuarios_ok s \<Longrightarrow> usuarios s (usuario_id_counter s) = None"
proof (rule ccontr)
  assume ok: "usuarios_ok s" and "usuarios s (usuario_id_counter s) \<noteq> None"
  then obtain u where "usuarios s (usuario_id_counter s) = Some u" by blast
  with ok have "usuario_id_counter s < usuario_id_counter s"
    unfolding usuarios_ok_def by blast
  then show False by simp
qed

lemma conta_fresh: "contas_ok s \<Longrightarrow> contas s (conta_id_counter s) = None"
proof (rule ccontr)
  assume ok: "contas_ok s" and "contas s (conta_id_counter s) \<noteq> None"
  then obtain c where "contas s (conta_id_counter s) = Some c" by blast
  with ok have "conta_id_counter s < conta_id_counter s"
    unfolding contas_ok_def by blast
  then show False by simp
qed

lemma transacao_fresh: "transacoes_ok s \<Longrightarrow> transacoes s (transacao_id_counter s) = None"
proof (rule ccontr)
  assume ok: "transacoes_ok s" and "transacoes s (transacao_id_counter s) \<noteq> None"
  then obtain t where "transacoes s (transacao_id_counter s) = Some t" by blast
  with ok have "transacao_id_counter s < transacao_id_counter s"
    unfolding transacoes_ok_def by blast
  then show False by simp
qed

lemma index_below_counter:
  assumes "transacoes_ok s" "conta_id_to_transacoes s cid = Some l" "tid \<in> set l"
  shows "tid < transacao_id_counter s"
proof -
  from assms obtain t where "transacoes s tid = Some t"
    unfolding transacoes_ok_def by blast
  with assms(1) show ?thesis unfolding transacoes_ok_def by blast
qed

lemma criar_usuario_dup:
  "cpf \<in> dom (cpf_to_usuario_id s) \<Longrightarrow>
   criar_usuario s nome cpf h agora = (Inl CpfJaCadastrado, s)"
  by (simp add: criar_usuario_def)

lemma criar_usuario_commit:
  "cpf \<notin> dom (cpf_to_usuario_id s) \<Longrightarrow>
   criar_usuario s nome cpf h agora =
     (Inr \<lparr> u_id = usuario_id_counter s, u_nome = nome, u_cpf = cpf,
             u_senha_hash = h, u_data_criacao = agora \<rparr>,
      s\<lparr> usuario_id_counter := usuario_id_counter s + 1,
         usuarios := (usuarios s)(usuario_id_counter s \<mapsto>
           \<lparr> u_id = usuario_id_counter s, u_nome = nome, u_cpf = cpf,
             u_senha_hash = h, u_data_criacao = agora \<rparr>),
         cpf_to_usuario_id := (cpf_to_usuario_id s)(cpf \<mapsto> usuario_id_counter s) \<rparr>)"
  by (simp add: criar_usuario_def Let_def)

lemma usuarios_ok_criar_usuario:
  assumes ok: "usuarios_ok s"
  shows "usuarios_ok (snd (criar_usuario s nome cpf h agora))"
proof (cases "cpf \<in> dom (cpf_to_usuario_id s)")
  case True
  with ok show ?thesis by (simp add: criar_usuario_dup)
next
  case False
  note fresh = usuario_fresh [OF ok]
  from ok have a: "\<And>uid u. usuarios s uid = Some u \<Longrightarrow>
      u_id u = uid \<and> uid < usuario_id_counter s \<and> cpf_to_usuario_id s (u_cpf u) = Some uid"
    and b: "\<And>c uid. cpf_to_usuario_id s c = Some uid \<Longrightarrow>
      \<exists>u. usuarios s uid = Some u \<and> u_cpf u = c"
    unfolding usuarios_ok_def by blast+
  from False have none: "cpf_to_usuario_id s cpf = None" by (simp add: domIff)
  show ?thesis
    unfolding usuarios_ok_def
    apply (simp add: criar_usuario_commit [OF False])
    apply (intro conjI allI impI)
    using a b fresh none apply (force | fastforce | (auto)[1] | metis option.distinct(1) less_irrefl)+
    done
qed

lemma criar_conta_commit:
  "usuario_id \<in> dom (usuarios s) \<Longrightarrow> usuario_id \<notin> dom (usuario_id_to_conta_id s) \<Longrightarrow>
   criar_conta s usuario_id tipo digito agora =
     (Inr \<lparr> c_id = conta_id_counter s,
             c_numero_conta =
               gerar_numero_conta (s\<lparr>conta_id_counter := conta_id_counter s + 1\<rparr>) digito,
             c_tipo_conta = tipo_conta_value tipo, c_saldo = 0,
             c_usuario_id = usuario_id, c_data_criacao = agora \<rparr>,
      s\<lparr> conta_id_counter := conta_id_counter s + 1,
         contas := (contas s)(conta_id_counter s \<mapsto>
           \<lparr> c_id = conta_id_counter s,
             c_numero_conta =
               gerar_numero_conta (s\<lparr>conta_id_counter := conta_id_counter s + 1\<rparr>) digito,
             c_tipo_conta = tipo_conta_value tipo, c_saldo = 0,
             c_usuario_id = usuario_id, c_data_criacao = agora \<rparr>),
         usuario_id_to_conta_id := (usuario_id_to_conta_id s)(usuario_id \<mapsto> conta_id_counter s),
         conta_id_to_transacoes := (conta_id_to_transacoes s)(conta_id_counter s \<mapsto> []) \<rparr>)"
  by (simp add: criar_conta_def Let_def)

lemma criar_conta_fail:
  "usuario_id \<notin> dom (usuarios s) \<or> usuario_id \<in> dom (usuario_id_to_conta_id s) \<Longrightarrow>
   snd (criar_conta s usuario_id tipo digito agora) = s"
  by (auto simp: criar_conta_def)

lemma criar_transacao_not_found:
  "contas s cid = None \<Longrightarrow> criar_transacao s cid tipo v d agora = (Inl ContaNaoEncontrada, s)"
  by (simp add: criar_transacao_def obter_conta_por_id_def)

lemma criar_transacao_insufficient:
  "contas s cid = Some c \<Longrightarrow> c_saldo c < v \<Longrightarrow>
   criar_transacao s cid SAQUE v d agora = (Inl SaldoInsuficiente, s)"
  by (simp add: criar_transacao_def obter_conta_por_id_def)

lemma contas_ok_index:
  "contas_ok s \<Longrightarrow> contas s cid = Some c \<Longrightarrow> \<exists>l. conta_id_to_transacoes s cid = Some l"
  unfolding contas_ok_def by (metis domD domI)

lemma contas_ok_criar_usuario:
  "contas_ok s \<Longrightarrow> contas_ok (snd (criar_usuario s nome cpf h agora))"
  by (simp add: contas_ok_def criar_usuario_def Let_def)

lemma transacoes_ok_criar_usuario:
  "transacoes_ok s \<Longrightarrow> transacoes_ok (snd (criar_usuario s nome cpf h agora))"
  by (simp add: transacoes_ok_def criar_usuario_def Let_def)

lemma usuarios_ok_criar_conta:
  "usuarios_ok s \<Longrightarrow> usuarios_ok (snd (criar_conta s uid tipo digito agora))"
  by (simp add: usuarios_ok_def criar_conta_def Let_def)

lemma usuarios_ok_criar_transacao:
  "usuarios_ok s \<Longrightarrow> usuarios_ok (snd (criar_transacao s cid tipo v d agora))"
  by (simp add: usuarios_ok_def criar_transacao_def obter_conta_por_id_def Let_def
      split: option.splits)

lemma usuarios_ok_atualizar_saldo:
  "usuarios_ok s \<Longrightarrow> usuarios_ok (atualizar_saldo s cid v)"
  by (simp add: usuarios_ok_def)

lemma transacoes_ok_atualizar_saldo:
  "transacoes_ok s \<Longrightarrow> transacoes_ok (atualizar_saldo s cid v)"
  by (simp add: transacoes_ok_def)

lemma contas_ok_atualizar_saldo:
  assumes ok: "contas_ok s"
  shows "contas_ok (atualizar_saldo s cid v)"
proof (cases "contas s cid")
  case None
  with ok show ?thesis by (simp add: atualizar_saldo_def)
next
  case (Some c)
  from ok have a: "\<And>k c. contas s k = Some c \<Longrightarrow>
      c_id c = k \<and> k < conta_id_counter s \<and>
      usuario_id_to_conta_id s (c_usuario_id c) = Some k \<and> round2 (c_saldo c) = c_saldo c"
    and b: "\<And>uid k. usuario_id_to_conta_id s uid = Some k \<Longrightarrow>
      \<exists>c. contas s k = Some c \<and> c_usuario_id c = uid"
    and c: "dom (conta_id_to_transacoes s) = dom (contas s)"
    unfolding contas_ok_def by blast+
  show ?thesis
    unfolding contas_ok_def
    apply (simp add: atualizar_saldo_def Some round2_idem)
    apply (intro conjI allI impI)
    using a b c Some apply (force | fastforce | (auto)[1])+
    done
qed

lemma contas_ok_criar_conta:
  assumes ok: "contas_ok s"
  shows "contas_ok (snd (criar_conta s uid tipo digito agora))"
proof (cases "uid \<in> dom (usuarios s) \<and> uid \<notin> dom (usuario_id_to_conta_id s)")
  case False
  with ok show ?thesis by (simp add: criar_conta_fail)
next
  case True
  then have u: "uid \<in> dom (usuarios s)" and n: "uid \<notin> dom (usuario_id_to_conta_id s)"
    by simp_all
  note fresh = conta_fresh [OF ok]
  from n have none: "usuario_id_to_conta_id s uid = None" by (simp add: domIff)
  from ok have a: "\<And>k c. contas s k = Some c \<Longrightarrow>
      c_id c = k \<and> k < conta_id_counter s \<and>
      usuario_id_to_conta_id s (c_usuario_id c) = Some k \<and> round2 (c_saldo c) = c_saldo c"
    and b: "\<And>uid k. usuario_id_to_conta_id s uid = Some k \<Longrightarrow>
      \<exists>c. contas s k = Some c \<and> c_usuario_id c = uid"
    and c: "dom (conta_id_to_transacoes s) = dom (contas s)"
    unfolding contas_ok_def by blast+
  show ?thesis
    unfolding contas_ok_def
    apply (simp add: criar_conta_commit [OF u n] round2_zero c)
    apply (intro conjI allI impI)
    using a b fresh none apply (force | fastforce | (auto)[1])+
    done
qed

lemma criar_transacao_key_error_unreachable:
  "contas_ok s \<Longrightarrow> fst (criar_transacao s cid tipo v d agora) \<noteq> Inl KeyError"
proof (cases "contas s cid")
  case None
  then show ?thesis by (simp add: criar_transacao_not_found)
next
  case (Some c)
  assume "contas_ok s"
  from contas_ok_index [OF this Some] obtain l where l: "conta_id_to_transacoes s cid = Some l" ..
  show ?thesis
  proof (cases "tipo = SAQUE \<and> c_saldo c < v")
    case True
    then show ?thesis using Some by (simp add: criar_transacao_insufficient)
  next
    case False
    show ?thesis by (simp add: criar_transacao_commit [OF Some l False])
  qed
qed

lemma contas_ok_criar_transacao:
  assumes ok: "contas_ok s"
  shows "contas_ok (snd (criar_transacao s cid tipo v d agora))"
proof (cases "contas s cid")
  case None
  with ok show ?thesis by (simp add: criar_transacao_not_found)
next
  case (Some c)
  from contas_ok_index [OF ok Some] obtain l where l: "conta_id_to_transacoes s cid = Some l" ..
  show ?thesis
  proof (cases "tipo = SAQUE \<and> c_saldo c < v")
    case True
    then show ?thesis using ok Some by (simp add: criar_transacao_insufficient)
  next
    case False
    from ok have a: "\<And>k c. contas s k = Some c \<Longrightarrow>
        c_id c = k \<and> k < conta_id_counter s \<and>
        usuario_id_to_conta_id s (c_usuario_id c) = Some k \<and> round2 (c_saldo c) = c_saldo c"
      and b: "\<And>uid k. usuario_id_to_conta_id s uid = Some k \<Longrightarrow>
        \<exists>c. contas s k = Some c \<and> c_usuario_id c = uid"
      and c: "dom (conta_id_to_transacoes s) = dom (contas s)"
      unfolding contas_ok_def by blast+
    have d: "insert cid (dom (contas s)) = dom (contas s)"
      using Some by auto
    show ?thesis
      unfolding contas_ok_def
      apply (simp add: criar_transacao_commit [OF Some l False] round2_idem c d)
      apply (intro conjI allI impI)
      using a b Some apply (force | fastforce | (auto)[1])+
      done
  qed
qed

lemma transacoes_ok_criar_conta:
  assumes ok: "transacoes_ok s" and cok: "contas_ok s"
  shows "transacoes_ok (snd (criar_conta s uid tipo digito agora))"
proof (cases "uid \<in> dom (usuarios s) \<and> uid \<notin> dom (usuario_id_to_conta_id s)")
  case False
  with ok show ?thesis by (simp add: criar_conta_fail)
next
  case True
  then have u: "uid \<in> dom (usuarios s)" and n: "uid \<notin> dom (usuario_id_to_conta_id s)"
    by simp_all
  from cok conta_fresh [OF cok] have fresh: "conta_id_to_transacoes s (conta_id_counter s) = None"
    unfolding contas_ok_def by (metis domIff)
  from ok have a: "\<And>tid t. transacoes s tid = Some t \<Longrightarrow>
        t_id t = tid \<and> tid < transacao_id_counter s \<and>
        (\<exists>l. conta_id_to_transacoes s (t_conta_id t) = Some l \<and> tid \<in> set l)"
    and b: "\<And>k l. conta_id_to_transacoes s k = Some l \<Longrightarrow>
        sorted_wrt (<) l \<and> (\<forall>tid\<in>set l. \<exists>t. transacoes s tid = Some t \<and> t_conta_id t = k)"
    unfolding transacoes_ok_def by blast+
  show ?thesis
    unfolding transacoes_ok_def
    apply (simp add: criar_conta_commit [OF u n])
    apply (intro conjI allI impI)
    using a b fresh apply (force | fastforce | (auto)[1])+
    done
qed

lemma transacoes_ok_criar_transacao:
  assumes ok: "transacoes_ok s" and cok: "contas_ok s"
  shows "transacoes_ok (snd (criar_transacao s cid tipo v d agora))"
proof (cases "contas s cid")
  case None
  with ok show ?thesis by (simp add: criar_transacao_not_found)
next
  case (Some c)
  from contas_ok_index [OF cok Some] obtain l where l: "conta_id_to_transacoes s cid = Some l" ..
  show ?thesis
  proof (cases "tipo = SAQUE \<and> c_saldo c < v")
    case True
    then show ?thesis using ok Some by (simp add: criar_transacao_insufficient)
  next
    case False
    note fresh = transacao_fresh [OF ok]
    from ok have a: "\<And>tid t. transacoes s tid = Some t \<Longrightarrow>
          t_id t = tid \<and> tid < transacao_id_counter s \<and>
          (\<exists>l. conta_id_to_transacoes s (t_conta_id t) = Some l \<and> tid \<in> set l)"
      and b: "\<And>k l. conta_id_to_transacoes s k = Some l \<Longrightarrow>
          sorted_wrt (<) l \<and> (\<forall>tid\<in>set l. \<exists>t. transacoes s tid = Some t \<and> t_conta_id t = k)"
      unfolding transacoes_ok_def by blast+
    have below: "\<And>tid. tid \<in> set l \<Longrightarrow> tid < transacao_id_counter s"
      using index_below_counter [OF ok l] .
    show ?thesis
      unfolding transacoes_ok_def
      apply (simp add: criar_transacao_commit [OF Some l False] sorted_wrt_append)
      apply (intro conjI allI impI)
      using a b fresh l below apply (force | fastforce | (auto)[1])+
      done
  qed
qed

lemma wf_init: "wf db_init"
  by (simp add: wf_def usuarios_ok_init contas_ok_init transacoes_ok_init)

lemma wf_step: "wf s \<Longrightarrow> wf (step s x)"
  by (cases x)
     (simp_all add: wf_def usuarios_ok_criar_usuario contas_ok_criar_usuario
        transacoes_ok_criar_usuario usuarios_ok_criar_conta contas_ok_criar_conta
        transacoes_ok_criar_conta usuarios_ok_criar_transacao contas_ok_criar_transacao
        transacoes_ok_criar_transacao usuarios_ok_atualizar_saldo contas_ok_atualizar_saldo
        transacoes_ok_atualizar_saldo)

lemma wf_exec: "wf (exec ops)"
  by (induction ops rule: rev_induct) (simp_all add: exec_Nil exec_snoc wf_init wf_step)

lemma ids_sequential_step: "ids_sequential s \<Longrightarrow> ids_sequential (step s x)"
proof (cases x)
  case (CriarUsuario nome cpf h agora)
  assume "ids_sequential s"
  then show ?thesis
    using CriarUsuario
    by (cases "cpf \<in> dom (cpf_to_usuario_id s)")
       (auto simp: ids_sequential_def criar_usuario_dup criar_usuario_commit)
next
  case (CriarConta uid tipo digito agora)
  assume "ids_sequential s"
  then show ?thesis
    using CriarConta by (simp add: ids_sequential_def criar_conta_def Let_def)
next
  case (CriarTransacao cid tipo v d agora)
  assume "ids_sequential s"
  then show ?thesis
    using CriarTransacao
    by (simp add: ids_sequential_def criar_transacao_def obter_conta_por_id_def Let_def
        split: option.splits)
next
  case (AtualizarSaldo cid v)
  assume "ids_sequential s"
  then show ?thesis
    using AtualizarSaldo by (simp add: ids_sequential_def)
qed

lemma ids_sequential_exec: "ids_sequential (exec ops)"
  by (induction ops rule: rev_induct)
     (simp_all add: exec_Nil exec_snoc ids_sequential_step, simp add: ids_sequential_def db_init_def)

section \<open>Withdrawals above the balance\<close>

text \<open>
  Claim C2. A withdrawal (\<open>SAQUE\<close>) whose amount is greater than the current balance of
  the account fails with \<open>SaldoInsuficiente\<close> (InsufficientFunds) and returns the store
  it was given: the balance, the transaction log and the transaction id counter are the
  ones before the call. This holds in every store, reachable or not.
\<close>

theorem saque_acima_do_saldo:
  "contas s conta_id = Some conta \<Longrightarrow> c_saldo conta < valor \<Longrightarrow>
   criar_transacao s conta_id SAQUE valor descricao agora = (Inl SaldoInsuficiente, s)"
  by (simp add: criar_transacao_def obter_conta_por_id_def)

theorem saque_acima_do_saldo_witness:
  "map_option c_saldo (contas (exec [CriarUsuario ''Joao da Silva'' ''12345678900'' ''h'' 0,
       CriarConta 1 CORRENTE 7 1, CriarTransacao 1 DEPOSITO 100 None 2]) 1) = Some 100 \<and>
   (100 :: pyfloat) < 150 \<and>
   criar_transacao (exec [CriarUsuario ''Joao da Silva'' ''12345678900'' ''h'' 0,
       CriarConta 1 CORRENTE 7 1, CriarTransacao 1 DEPOSITO 100 None 2]) 1 SAQUE 150 None 3 =
     (Inl SaldoInsuficiente, exec [CriarUsuario ''Joao da Silva'' ''12345678900'' ''h'' 0,
       CriarConta 1 CORRENTE 7 1, CriarTransacao 1 DEPOSITO 100 None 2])"
proof -
  let ?s = "exec [CriarUsuario ''Joao da Silva'' ''12345678900'' ''h'' 0,
       CriarConta 1 CORRENTE 7 1, CriarTransacao 1 DEPOSITO 100 None 2]"
  have a: "map_option c_saldo (contas ?s 1) = Some 100"
    by code_simp
  then obtain c where c: "contas ?s 1 = Some c" and b: "c_saldo c = 100"
    by auto
  have d: "(100 :: pyfloat) < 150" by (simp add: numeral_pyfloat)
  then have "c_saldo c < 150" using b by simp
  from saque_acima_do_saldo [OF c this] a d show ?thesis by simp
qed

section \<open>Setting a balance\<close>

text \<open>
  Claim C10. \<open>atualizar_saldo\<close> on an account id that is not in \<open>contas\<close> returns
  the store unchanged (the method has no \<^verbatim>\<open>raise\<close>, and its only subscript is
  guarded by the membership test). On an id that is present it replaces that account's
  balance by the new value rounded to 2 decimals: every other field of the account, every
  other account and every other component of the store stay as they were.
\<close>

theorem atualizar_saldo_efeito:
  "(contas s conta_id = None \<longrightarrow> atualizar_saldo s conta_id novo_saldo = s) \<and>
   (\<forall>conta. contas s conta_id = Some conta \<longrightarrow>
      atualizar_saldo s conta_id novo_saldo =
        s\<lparr>contas := (contas s)(conta_id \<mapsto> conta\<lparr>c_saldo := round2 novo_saldo\<rparr>)\<rparr> \<and>
      (\<forall>k. k \<noteq> conta_id \<longrightarrow> contas (atualizar_saldo s conta_id novo_saldo) k = contas s k) \<and>
      (\<exists>c'. contas (atualizar_saldo s conta_id novo_saldo) conta_id = Some c' \<and>
         c_saldo c' = round2 novo_saldo \<and> c_id c' = c_id conta \<and>
         c_numero_conta c' = c_numero_conta conta \<and> c_tipo_conta c' = c_tipo_conta conta \<and>
         c_usuario_id c' = c_usuario_id conta \<and> c_data_criacao c' = c_data_criacao conta))"
  by (simp add: atualizar_saldo_def)

theorem atualizar_saldo_efeito_witness:
  "contas db_init 7 = None \<and> atualizar_saldo db_init 7 50 = db_init \<and>
   map_option c_saldo (contas (atualizar_saldo (exec [CriarUsuario ''Joao da Silva'' ''12345678900'' ''h'' 0,
       CriarConta 1 CORRENTE 7 1]) 1 (Fin (1005 / 1000))) 1) = Some 1"
proof -
  let ?s = "exec [CriarUsuario ''Joao da Silva'' ''12345678900'' ''h'' 0, CriarConta 1 CORRENTE 7 1]"
  have n: "contas db_init 7 = None" by (simp add: db_init_def)
  have a: "contas ?s 1 \<noteq> None" by code_simp
  then obtain c where c: "contas ?s 1 = Some c" by auto
  have r: "round2 (Fin (1005 / 1000)) = 1" by code_simp
  from atualizar_saldo_efeito [of db_init 7 50] n
  have 1: "atualizar_saldo db_init 7 50 = db_init" by simp
  from atualizar_saldo_efeito [of ?s 1 "Fin (1005 / 1000)"] c r
  have 2: "map_option c_saldo (contas (atualizar_saldo ?s 1 (Fin (1005 / 1000))) 1) = Some 1"
    by auto
  from n 1 2 show ?thesis by simp
qed

section \<open>Registration and account opening\<close>

text \<open>
  The side indexes decide the two uniqueness checks; in a reachable store they say what
  the primary dictionaries say.
\<close>

lemma cpf_index_iff:
  "usuarios_ok s \<Longrightarrow>
   cpf \<in> dom (cpf_to_usuario_id s) \<longleftrightarrow> (\<exists>uid u. usuarios s uid = Some u \<and> u_cpf u = cpf)"
  unfolding usuarios_ok_def by (metis domD domI)

lemma conta_index_iff:
  "contas_ok s \<Longrightarrow>
   uid \<in> dom (usuario_id_to_conta_id s) \<longleftrightarrow> (\<exists>cid c. contas s cid = Some c \<and> c_usuario_id c = uid)"
  unfolding contas_ok_def by (metis domD domI)

lemma contas_ok_one_per_user:
  "contas_ok s \<Longrightarrow> contas s k1 = Some c1 \<Longrightarrow> contas s k2 = Some c2 \<Longrightarrow>
   c_usuario_id c1 = c_usuario_id c2 \<Longrightarrow> k1 = k2"
  unfolding contas_ok_def by (metis option.inject)

text \<open>
  Claim C6. After any run of calls, registering a CPF that some stored user already has
  fails with \<open>CpfJaCadastrado\<close> (DuplicateIdentity) and returns the store unchanged,
  so the users, their number and the user id counter are the ones before the call.
  Otherwise the call succeeds: the new user's id is the counter, the ids in use are
  exactly 1 up to the counter, and the store gains that user, its index entry and a
  counter one higher.
\<close>

theorem criar_usuario_cpf_unico:
  "(if \<exists>uid u. usuarios (exec ops) uid = Some u \<and> u_cpf u = cpf
    then criar_usuario (exec ops) nome cpf senha_hash agora = (Inl CpfJaCadastrado, exec ops)
    else dom (usuarios (exec ops)) = {1..<usuario_id_counter (exec ops)} \<and>
         criar_usuario (exec ops) nome cpf senha_hash agora =
           (Inr \<lparr> u_id = usuario_id_counter (exec ops), u_nome = nome, u_cpf = cpf,
                   u_senha_hash = senha_hash, u_data_criacao = agora \<rparr>,
            (exec ops)\<lparr> usuario_id_counter := usuario_id_counter (exec ops) + 1,
               usuarios := (usuarios (exec ops))(usuario_id_counter (exec ops) \<mapsto>
                 \<lparr> u_id = usuario_id_counter (exec ops), u_nome = nome, u_cpf = cpf,
                   u_senha_hash = senha_hash, u_data_criacao = agora \<rparr>),
               cpf_to_usuario_id :=
                 (cpf_to_usuario_id (exec ops))(cpf \<mapsto> usuario_id_counter (exec ops)) \<rparr>))"
proof -
  have ok: "usuarios_ok (exec ops)" using wf_exec [of ops] by (simp add: wf_def)
  have sq: "dom (usuarios (exec ops)) = {1..<usuario_id_counter (exec ops)}"
    using ids_sequential_exec [of ops] by (simp add: ids_sequential_def)
  show ?thesis
    using cpf_index_iff [OF ok, of cpf] sq
    by (simp add: criar_usuario_dup criar_usuario_commit)
qed

theorem criar_usuario_cpf_unico_witness:
  "criar_usuario (exec [CriarUsuario ''Joao da Silva'' ''12345678900'' ''h'' 0])
       ''Joao Souza'' ''12345678900'' ''h2'' 1 =
     (Inl CpfJaCadastrado, exec [CriarUsuario ''Joao da Silva'' ''12345678900'' ''h'' 0]) \<and>
   map_option u_id (usuarios (snd (criar_usuario
       (exec [CriarUsuario ''Joao da Silva'' ''12345678900'' ''h'' 0])
       ''Maria Lima'' ''98765432100'' ''h3'' 1)) 2) = Some 2"
proof -
  let ?s = "exec [CriarUsuario ''Joao da Silva'' ''12345678900'' ''h'' 0]"
  have a: "map_option u_cpf (usuarios ?s 1) = Some ''12345678900''" by code_simp
  then have p: "\<exists>uid u. usuarios ?s uid = Some u \<and> u_cpf u = ''12345678900''" by auto
  have c: "usuario_id_counter ?s = 2" by code_simp
  have "\<forall>uid. map_option u_cpf (usuarios ?s uid) \<noteq> Some ''98765432100''"
    by (simp add: exec_def db_init_def criar_usuario_def Let_def)
  then have q: "\<not> (\<exists>uid u. usuarios ?s uid = Some u \<and> u_cpf u = ''98765432100'')" by force
  from criar_usuario_cpf_unico [of "[CriarUsuario ''Joao da Silva'' ''12345678900'' ''h'' 0]"
      "''12345678900''" "''Joao Souza''" "''h2''" 1] p
  have 1: "criar_usuario ?s ''Joao Souza'' ''12345678900'' ''h2'' 1 = (Inl CpfJaCadastrado, ?s)"
    by simp
  from criar_usuario_cpf_unico [of "[CriarUsuario ''Joao da Silva'' ''12345678900'' ''h'' 0]"
      "''98765432100''" "''Maria Lima''" "''h3''" 1] q c
  have 2: "map_option u_id (usuarios (snd (criar_usuario ?s ''Maria Lima'' ''98765432100'' ''h3'' 1)) 2) = Some 2"
    by simp
  from 1 2 show ?thesis by simp
qed

text \<open>
  Claim C7. After any run of calls, \<open>criar_conta\<close> fails with
  \<open>UsuarioNaoEncontrado\<close> (UnknownUser) when the user id is not in \<open>usuarios\<close>,
  and with \<open>UsuarioJaPossuiConta\<close> (AccountAlreadyExists) when the user exists and
  some stored account belongs to them; both failures return the store unchanged. A
  successful call stores an account whose balance is 0. Whatever the outcome, no two
  accounts of the resulting store belong to one user.
\<close>

theorem criar_conta_uma_por_usuario:
  "(usuarios (exec ops) usuario_id = None \<longrightarrow>
      criar_conta (exec ops) usuario_id tipo_conta digito agora =
        (Inl UsuarioNaoEncontrado, exec ops)) \<and>
   (usuarios (exec ops) usuario_id \<noteq> None \<and>
    (\<exists>cid c. contas (exec ops) cid = Some c \<and> c_usuario_id c = usuario_id) \<longrightarrow>
      criar_conta (exec ops) usuario_id tipo_conta digito agora =
        (Inl UsuarioJaPossuiConta, exec ops)) \<and>
   (\<forall>conta. fst (criar_conta (exec ops) usuario_id tipo_conta digito agora) = Inr conta \<longrightarrow>
      c_saldo conta = 0 \<and> c_usuario_id conta = usuario_id \<and>
      contas (snd (criar_conta (exec ops) usuario_id tipo_conta digito agora)) (c_id conta)
        = Some conta) \<and>
   (\<forall>k1 k2 c1 c2.
      contas (snd (criar_conta (exec ops) usuario_id tipo_conta digito agora)) k1 = Some c1 \<and>
      contas (snd (criar_conta (exec ops) usuario_id tipo_conta digito agora)) k2 = Some c2 \<and>
      c_usuario_id c1 = c_usuario_id c2 \<longrightarrow> k1 = k2)"
proof -
  have ok: "contas_ok (exec ops)" using wf_exec [of ops] by (simp add: wf_def)
  have "wf (exec (ops @ [CriarConta usuario_id tipo_conta digito agora]))" by (rule wf_exec)
  then have ok': "contas_ok (snd (criar_conta (exec ops) usuario_id tipo_conta digito agora))"
    by (simp add: exec_snoc wf_def)
  have 1: "usuarios (exec ops) usuario_id = None \<longrightarrow>
      criar_conta (exec ops) usuario_id tipo_conta digito agora =
        (Inl UsuarioNaoEncontrado, exec ops)"
    by (simp add: criar_conta_def domIff)
  have 2: "usuarios (exec ops) usuario_id \<noteq> None \<and>
    (\<exists>cid c. contas (exec ops) cid = Some c \<and> c_usuario_id c = usuario_id) \<longrightarrow>
      criar_conta (exec ops) usuario_id tipo_conta digito agora =
        (Inl UsuarioJaPossuiConta, exec ops)"
    using conta_index_iff [OF ok, of usuario_id] by (auto simp: criar_conta_def)
  have 3: "\<forall>conta. fst (criar_conta (exec ops) usuario_id tipo_conta digito agora) = Inr conta \<longrightarrow>
      c_saldo conta = 0 \<and> c_usuario_id conta = usuario_id \<and>
      contas (snd (criar_conta (exec ops) usuario_id tipo_conta digito agora)) (c_id conta)
        = Some conta"
    by (auto simp: criar_conta_def Let_def split: if_splits)
  have 4: "\<forall>k1 k2 c1 c2.
      contas (snd (criar_conta (exec ops) usuario_id tipo_conta digito agora)) k1 = Some c1 \<and>
      contas (snd (criar_conta (exec ops) usuario_id tipo_conta digito agora)) k2 = Some c2 \<and>
      c_usuario_id c1 = c_usuario_id c2 \<longrightarrow> k1 = k2"
    using contas_ok_one_per_user [OF ok'] by blast
  from 1 2 3 4 show ?thesis by blast
qed

theorem criar_conta_uma_por_usuario_witness:
  "criar_conta (exec [CriarUsuario ''Joao da Silva'' ''12345678900'' ''h'' 0]) 5 CORRENTE 7 1 =
     (Inl UsuarioNaoEncontrado, exec [CriarUsuario ''Joao da Silva'' ''12345678900'' ''h'' 0]) \<and>
   criar_conta (exec [CriarUsuario ''Joao da Silva'' ''12345678900'' ''h'' 0,
       CriarConta 1 CORRENTE 7 1]) 1 POUPANCA 3 2 =
     (Inl UsuarioJaPossuiConta, exec [CriarUsuario ''Joao da Silva'' ''12345678900'' ''h'' 0,
       CriarConta 1 CORRENTE 7 1]) \<and>
   \<not> isl (fst (criar_conta (exec [CriarUsuario ''Joao da Silva'' ''12345678900'' ''h'' 0])
       1 CORRENTE 7 1)) \<and>
   c_saldo (projr (fst (criar_conta (exec [CriarUsuario ''Joao da Silva'' ''12345678900'' ''h'' 0])
       1 CORRENTE 7 1))) = 0"
proof -
  let ?ops1 = "[CriarUsuario ''Joao da Silva'' ''12345678900'' ''h'' 0]"
  let ?ops2 = "[CriarUsuario ''Joao da Silva'' ''12345678900'' ''h'' 0, CriarConta 1 CORRENTE 7 1]"
  have a: "usuarios (exec ?ops1) 5 = None" by code_simp
  have b: "usuarios (exec ?ops2) 1 \<noteq> None" by code_simp
  have "map_option c_usuario_id (contas (exec ?ops2) 1) = Some 1" by code_simp
  then have c: "\<exists>cid c. contas (exec ?ops2) cid = Some c \<and> c_usuario_id c = 1" by auto
  have d: "\<not> isl (fst (criar_conta (exec ?ops1) 1 CORRENTE 7 1))" by code_simp
  then obtain conta where e: "fst (criar_conta (exec ?ops1) 1 CORRENTE 7 1) = Inr conta"
    by (cases "fst (criar_conta (exec ?ops1) 1 CORRENTE 7 1)") auto
  from criar_conta_uma_por_usuario [of ?ops1 5 CORRENTE 7 1] a
  have 1: "criar_conta (exec ?ops1) 5 CORRENTE 7 1 = (Inl UsuarioNaoEncontrado, exec ?ops1)"
    by blast
  from criar_conta_uma_por_usuario [of ?ops2 1 POUPANCA 3 2] b c
  have 2: "criar_conta (exec ?ops2) 1 POUPANCA 3 2 = (Inl UsuarioJaPossuiConta, exec ?ops2)"
    by blast
  from criar_conta_uma_por_usuario [of ?ops1 1 CORRENTE 7 1] e
  have 3: "c_saldo conta = 0" by blast
  from 1 2 d e 3 show ?thesis by simp
qed

section \<open>Committed transactions\<close>

text \<open>
  Claim C5. When \<open>criar_transacao\<close> succeeds on a store reached by any run of
  calls, the returned transaction's balance-before is the account's balance just before
  the call, its balance-after is balance-before plus the amount for a deposit and minus
  the amount for a withdrawal, rounded to 2 decimals, and the account's balance in the
  resulting store is that balance-after. The transaction is committed: its id is the
  transaction id counter, which no stored transaction had; the returned record is the one
  built from the arguments; and the resulting store is the old one with the counter one
  higher, the record stored under its id, the id appended to the account's index list and
  the account's balance replaced, nothing else changed.
\<close>

theorem criar_transacao_saldos:
  assumes "criar_transacao (exec ops) conta_id tipo valor descricao agora = (Inr t, s')"
  shows "\<exists>conta ids. contas (exec ops) conta_id = Some conta \<and>
           t_saldo_anterior t = c_saldo conta \<and>
           t_saldo_posterior t =
             round2 (case tipo of DEPOSITO \<Rightarrow> t_saldo_anterior t + valor
                                | SAQUE \<Rightarrow> t_saldo_anterior t - valor) \<and>
           map_option c_saldo (contas s' conta_id) = Some (t_saldo_posterior t) \<and>
           conta_id_to_transacoes (exec ops) conta_id = Some ids \<and>
           transacoes (exec ops) (transacao_id_counter (exec ops)) = None \<and>
           t = \<lparr> t_id = transacao_id_counter (exec ops), t_conta_id = conta_id,
                 t_tipo = tipo_transacao_value tipo, t_valor = round2 valor,
                 t_descricao = descricao, t_saldo_anterior = c_saldo conta,
                 t_saldo_posterior =
                   round2 (case tipo of DEPOSITO \<Rightarrow> c_saldo conta + valor
                                      | SAQUE \<Rightarrow> c_saldo conta - valor),
                 t_data_transacao = agora \<rparr> \<and>
           s' = (exec ops)
                  \<lparr> transacao_id_counter := transacao_id_counter (exec ops) + 1,
                    transacoes := (transacoes (exec ops))(t_id t \<mapsto> t),
                    conta_id_to_transacoes :=
                      (conta_id_to_transacoes (exec ops))(conta_id \<mapsto> ids @ [t_id t]),
                    contas :=
                      (contas (exec ops))
                        (conta_id \<mapsto> conta\<lparr>c_saldo := t_saldo_posterior t\<rparr>) \<rparr>"
proof (cases "contas (exec ops) conta_id")
  case None
  with assms show ?thesis by (simp add: criar_transacao_not_found)
next
  case (Some conta)
  have ok: "contas_ok (exec ops)" and tok: "transacoes_ok (exec ops)"
    using wf_exec [of ops] by (simp_all add: wf_def)
  from contas_ok_index [OF ok Some]
  obtain l where l: "conta_id_to_transacoes (exec ops) conta_id = Some l" ..
  from ok Some have r: "round2 (c_saldo conta) = c_saldo conta"
    unfolding contas_ok_def by blast
  note fresh = transacao_fresh [OF tok]
  show ?thesis
  proof (cases "tipo = SAQUE \<and> c_saldo conta < valor")
    case True
    with assms Some show ?thesis by (simp add: criar_transacao_insufficient)
  next
    case False
    from assms show ?thesis
      unfolding criar_transacao_commit [OF Some l False]
      using Some l r fresh by (cases tipo) auto
  qed
qed

theorem criar_transacao_saldos_witness:
  "fst (criar_transacao (exec [CriarUsuario ''Joao da Silva'' ''12345678900'' ''h'' 0,
       CriarConta 1 CORRENTE 7 1, CriarTransacao 1 DEPOSITO 1000 None 2]) 1 SAQUE 200 None 3) =
     Inr \<lparr> t_id = 2, t_conta_id = 1, t_tipo = ''saque'', t_valor = 200, t_descricao = None,
           t_saldo_anterior = 1000, t_saldo_posterior = 800, t_data_transacao = 3 \<rparr> \<and>
   map_option c_saldo (contas (exec [CriarUsuario ''Joao da Silva'' ''12345678900'' ''h'' 0,
       CriarConta 1 CORRENTE 7 1, CriarTransacao 1 DEPOSITO 1000 None 2]) 1) = Some 1000 \<and>
   map_option c_saldo (contas (snd (criar_transacao (exec [CriarUsuario ''Joao da Silva'' ''12345678900'' ''h'' 0,
       CriarConta 1 CORRENTE 7 1, CriarTransacao 1 DEPOSITO 1000 None 2]) 1 SAQUE 200 None 3)) 1) =
     Some 800 \<and>
   transacoes (exec [CriarUsuario ''Joao da Silva'' ''12345678900'' ''h'' 0,
       CriarConta 1 CORRENTE 7 1, CriarTransacao 1 DEPOSITO 1000 None 2]) 2 = None \<and>
   transacoes (snd (criar_transacao (exec [CriarUsuario ''Joao da Silva'' ''12345678900'' ''h'' 0,
       CriarConta 1 CORRENTE 7 1, CriarTransacao 1 DEPOSITO 1000 None 2]) 1 SAQUE 200 None 3)) 2 =
     Some \<lparr> t_id = 2, t_conta_id = 1, t_tipo = ''saque'', t_valor = 200, t_descricao = None,
            t_saldo_anterior = 1000, t_saldo_posterior = 800, t_data_transacao = 3 \<rparr> \<and>
   conta_id_to_transacoes (snd (criar_transacao (exec [CriarUsuario ''Joao da Silva'' ''12345678900'' ''h'' 0,
       CriarConta 1 CORRENTE 7 1, CriarTransacao 1 DEPOSITO 1000 None 2]) 1 SAQUE 200 None 3)) 1 =
     Some [1, 2]"
proof -
  let ?ops = "[CriarUsuario ''Joao da Silva'' ''12345678900'' ''h'' 0,
       CriarConta 1 CORRENTE 7 1, CriarTransacao 1 DEPOSITO 1000 None 2]"
  let ?t = "\<lparr> t_id = 2, t_conta_id = 1, t_tipo = ''saque'', t_valor = 200, t_descricao = None,
           t_saldo_anterior = 1000, t_saldo_posterior = 800, t_data_transacao = 3 \<rparr>"
  let ?s' = "snd (criar_transacao (exec ?ops) 1 SAQUE 200 None 3)"
  have a: "fst (criar_transacao (exec ?ops) 1 SAQUE 200 None 3) = Inr ?t" by code_simp
  then have b: "criar_transacao (exec ?ops) 1 SAQUE 200 None 3 = (Inr ?t, ?s')"
    by (metis prod.collapse)
  have i: "conta_id_to_transacoes (exec ?ops) 1 = Some [1]" by code_simp
  from criar_transacao_saldos [OF b]
  obtain conta ids where c: "contas (exec ?ops) 1 = Some conta"
    and ba: "t_saldo_anterior ?t = c_saldo conta"
    and bp: "map_option c_saldo (contas ?s' 1) = Some (t_saldo_posterior ?t)"
    and ix: "conta_id_to_transacoes (exec ?ops) 1 = Some ids"
    and fr: "transacoes (exec ?ops) (transacao_id_counter (exec ?ops)) = None"
    and tt: "t_id ?t = transacao_id_counter (exec ?ops)"
    and s': "?s' = (exec ?ops)
                  \<lparr> transacao_id_counter := transacao_id_counter (exec ?ops) + 1,
                    transacoes := (transacoes (exec ?ops))(t_id ?t \<mapsto> ?t),
                    conta_id_to_transacoes :=
                      (conta_id_to_transacoes (exec ?ops))(1 \<mapsto> ids @ [t_id ?t]),
                    contas :=
                      (contas (exec ?ops))
                        (1 \<mapsto> conta\<lparr>c_saldo := t_saldo_posterior ?t\<rparr>) \<rparr>"
    by (metis (no_types, lifting) transacao.select_convs(1))
  from tt have n: "transacao_id_counter (exec ?ops) = 2" by simp
  from ix i have ids: "ids = [1]" by simp
  have 1: "map_option c_saldo (contas (exec ?ops) 1) = Some 1000" using c ba by simp
  have 2: "map_option c_saldo (contas ?s' 1) = Some 800" using bp by simp
  have 3: "transacoes (exec ?ops) 2 = None" using fr n by simp
  have 4: "transacoes ?s' 2 = Some ?t" by (subst s') simp
  have 5: "conta_id_to_transacoes ?s' 1 = Some [1, 2]" by (subst s') (simp add: ids)
  from a 1 2 3 4 5 show ?thesis by blast
qed

section \<open>Listing and statistics\<close>

text \<open>
  In a reachable store every id of an index list has its record, so the comprehension of
  \<open>obter_transacoes_por_conta\<close> never meets a missing key.
\<close>

lemma obter_transacoes_wf:
  assumes "transacoes_ok s"
  shows "obter_transacoes_por_conta s cid =
     Inr (map (\<lambda>tid. the (transacoes s tid))
            (case conta_id_to_transacoes s cid of None \<Rightarrow> [] | Some ids \<Rightarrow> ids))"
proof (cases "conta_id_to_transacoes s cid")
  case None
  then show ?thesis by (simp add: obter_transacoes_por_conta_def)
next
  case (Some l)
  with assms have "\<forall>tid\<in>set l. transacoes s tid \<noteq> None"
    unfolding transacoes_ok_def by fastforce
  from lookup_all_Inr [OF this] Some show ?thesis
    by (simp add: obter_transacoes_por_conta_def)
qed

lemma index_ids:
  assumes "transacoes_ok s" "conta_id_to_transacoes s cid = Some l"
  shows "map (\<lambda>tid. t_id (the (transacoes s tid))) l = l"
proof -
  have "\<forall>tid\<in>set l. t_id (the (transacoes s tid)) = tid"
    using assms unfolding transacoes_ok_def by fastforce
  then show ?thesis by (simp add: map_idI)
qed

lemma index_members:
  assumes "transacoes_ok s"
  shows "t \<in> set (map (\<lambda>tid. the (transacoes s tid))
            (case conta_id_to_transacoes s cid of None \<Rightarrow> [] | Some ids \<Rightarrow> ids)) \<longleftrightarrow>
         (\<exists>tid. transacoes s tid = Some t \<and> t_conta_id t = cid)"
proof (cases "conta_id_to_transacoes s cid")
  case None
  from assms have "\<And>tid t. transacoes s tid = Some t \<Longrightarrow>
      \<exists>l. conta_id_to_transacoes s (t_conta_id t) = Some l"
    unfolding transacoes_ok_def by blast
  with None show ?thesis by fastforce
next
  case (Some l)
  from assms have a: "\<And>tid t. transacoes s tid = Some t \<Longrightarrow>
      \<exists>l. conta_id_to_transacoes s (t_conta_id t) = Some l \<and> tid \<in> set l"
    and b: "\<And>tid. tid \<in> set l \<Longrightarrow> \<exists>t. transacoes s tid = Some t \<and> t_conta_id t = cid"
    using Some unfolding transacoes_ok_def by blast+
  show ?thesis
  proof
    assume "t \<in> set (map (\<lambda>tid. the (transacoes s tid))
            (case conta_id_to_transacoes s cid of None \<Rightarrow> [] | Some ids \<Rightarrow> ids))"
    then obtain tid where "tid \<in> set l" "t = the (transacoes s tid)"
      using Some by auto
    with b [of tid] show "\<exists>tid. transacoes s tid = Some t \<and> t_conta_id t = cid"
      by auto
  next
    assume "\<exists>tid. transacoes s tid = Some t \<and> t_conta_id t = cid"
    then obtain tid where t: "transacoes s tid = Some t" "t_conta_id t = cid" by blast
    from a [OF t(1)] t(2) Some have "tid \<in> set l" by simp
    with t(1) Some show "t \<in> set (map (\<lambda>tid. the (transacoes s tid))
            (case conta_id_to_transacoes s cid of None \<Rightarrow> [] | Some ids \<Rightarrow> ids))"
      by force
  qed
qed

lemma obter_transacoes_append:
  assumes ok: "transacoes_ok s" and cok: "contas_ok s"
    and r: "criar_transacao s cid tipo v d agora = (Inr t, s')"
    and ts: "obter_transacoes_por_conta s cid = Inr ts"
  shows "obter_transacoes_por_conta s' cid = Inr (ts @ [t])"
proof (cases "contas s cid")
  case None
  with r show ?thesis by (simp add: criar_transacao_not_found)
next
  case (Some c)
  from contas_ok_index [OF cok Some] obtain l where l: "conta_id_to_transacoes s cid = Some l" ..
  show ?thesis
  proof (cases "tipo = SAQUE \<and> c_saldo c < v")
    case True
    with r Some show ?thesis by (simp add: criar_transacao_insufficient)
  next
    case False
    have fr: "transacao_id_counter s \<notin> set l"
      using index_below_counter [OF ok l] by fastforce
    from ts l have la: "lookup_all (transacoes s) l = Inr ts"
      by (simp add: obter_transacoes_por_conta_def)
    from r show ?thesis
      unfolding criar_transacao_commit [OF Some l False]
      by (auto simp: obter_transacoes_por_conta_def lookup_all_snoc lookup_all_fresh [OF fr] la)
  qed
qed

lemma obter_transacoes_other:
  assumes ok: "transacoes_ok s" and cok: "contas_ok s" and ne: "k \<noteq> cid"
  shows "obter_transacoes_por_conta (snd (criar_transacao s cid tipo v d agora)) k =
         obter_transacoes_por_conta s k"
proof (cases "contas s cid")
  case None
  then show ?thesis by (simp add: criar_transacao_not_found)
next
  case (Some c)
  from contas_ok_index [OF cok Some] obtain l where l: "conta_id_to_transacoes s cid = Some l" ..
  show ?thesis
  proof (cases "tipo = SAQUE \<and> c_saldo c < v")
    case True
    with Some show ?thesis by (simp add: criar_transacao_insufficient)
  next
    case False
    show ?thesis
    proof (cases "conta_id_to_transacoes s k")
      case None
      then show ?thesis
        using ne by (simp add: criar_transacao_commit [OF Some l False] obter_transacoes_por_conta_def)
    next
      case (Some l')
      have fr: "transacao_id_counter s \<notin> set l'"
        using index_below_counter [OF ok Some] by fastforce
      show ?thesis
        using ne Some
        by (simp add: criar_transacao_commit [OF \<open>contas s cid = Some c\<close> l False]
            obter_transacoes_por_conta_def lookup_all_fresh [OF fr])
    qed
  qed
qed

lemma foldl_plus_sum_list: "foldl (+) a xs = a + sum_list (xs :: pyfloat list)"
  by (induction xs arbitrary: a) (simp_all add: add.assoc)

lemma py_sum_sum_list: "py_sum xs = sum_list xs"
  by (simp add: py_sum_def foldl_plus_sum_list)

text \<open>
  Claim C8. After any run of calls and for every account id,
  \<open>obter_transacoes_por_conta\<close> returns a list and raises nothing. The list holds
  exactly the stored transactions of that account, their ids strictly ascending; it is
  empty for an unknown account id (and, by the first part, for an account without
  transactions). Ascending id is creation order: a transaction committed next on the
  account is the list's new last element. Timestamps are inputs of the model and take no
  part in the order.
\<close>

theorem obter_transacoes_em_ordem:
  "\<exists>ts. obter_transacoes_por_conta (exec ops) conta_id = Inr ts \<and>
     (\<forall>t. t \<in> set ts \<longleftrightarrow>
        (\<exists>tid. transacoes (exec ops) tid = Some t \<and> t_conta_id t = conta_id)) \<and>
     sorted_wrt (<) (map t_id ts) \<and>
     (contas (exec ops) conta_id = None \<longrightarrow> ts = []) \<and>
     (\<forall>tipo valor descricao agora t s'.
        criar_transacao (exec ops) conta_id tipo valor descricao agora = (Inr t, s') \<longrightarrow>
        obter_transacoes_por_conta s' conta_id = Inr (ts @ [t]))"
proof -
  let ?s = "exec ops"
  let ?l = "case conta_id_to_transacoes ?s conta_id of None \<Rightarrow> [] | Some ids \<Rightarrow> ids"
  let ?ts = "map (\<lambda>tid. the (transacoes ?s tid)) ?l"
  have ok: "transacoes_ok ?s" and cok: "contas_ok ?s"
    using wf_exec [of ops] by (simp_all add: wf_def)
  have 1: "obter_transacoes_por_conta ?s conta_id = Inr ?ts"
    by (rule obter_transacoes_wf [OF ok])
  have 2: "\<forall>t. t \<in> set ?ts \<longleftrightarrow>
      (\<exists>tid. transacoes ?s tid = Some t \<and> t_conta_id t = conta_id)"
    using index_members [OF ok] by blast
  have 3: "sorted_wrt (<) (map t_id ?ts)"
  proof (cases "conta_id_to_transacoes ?s conta_id")
    case None
    then show ?thesis by simp
  next
    case (Some l)
    from ok Some have "sorted_wrt (<) l" unfolding transacoes_ok_def by blast
    with index_ids [OF ok Some] Some show ?thesis by (simp add: comp_def)
  qed
  have 4: "contas ?s conta_id = None \<longrightarrow> ?ts = []"
  proof
    assume "contas ?s conta_id = None"
    with cok have "conta_id_to_transacoes ?s conta_id = None"
      unfolding contas_ok_def by (metis domIff)
    then show "?ts = []" by simp
  qed
  have 5: "\<forall>tipo valor descricao agora t s'.
        criar_transacao ?s conta_id tipo valor descricao agora = (Inr t, s') \<longrightarrow>
        obter_transacoes_por_conta s' conta_id = Inr (?ts @ [t])"
    using obter_transacoes_append [OF ok cok _ 1] by blast
  show ?thesis
    by (rule exI [of _ ?ts]) (rule conjI 1 2 3 4 5)+
qed

text \<open>
  Claim C9. After any run of calls and for every account id,
  \<open>obter_estatisticas_conta\<close> succeeds; its deposit total is the sum of the amounts
  of the listed transactions of kind \<open>''deposito''\<close>, its withdrawal total the sum
  over kind \<open>''saque''\<close>, each rounded to 2 decimals, and its count is the length of
  the list. The method assigns nothing, so the model is a function of the store that
  returns no store.
\<close>

theorem obter_estatisticas_somas:
  "\<exists>ts. obter_transacoes_por_conta (exec ops) conta_id = Inr ts \<and>
     obter_estatisticas_conta (exec ops) conta_id =
       Inr \<lparr> total_depositos =
               round2 (sum_list (map t_valor (filter (\<lambda>t. t_tipo t = ''deposito'') ts))),
             total_saques =
               round2 (sum_list (map t_valor (filter (\<lambda>t. t_tipo t = ''saque'') ts))),
             quantidade_transacoes = length ts \<rparr>"
proof -
  have ok: "transacoes_ok (exec ops)" using wf_exec [of ops] by (simp add: wf_def)
  show ?thesis
    by (simp add: obter_estatisticas_conta_def obter_transacoes_wf [OF ok] py_sum_sum_list)
qed

theorem obter_transacoes_em_ordem_witness:
  "obter_transacoes_por_conta (exec [CriarUsuario ''Joao da Silva'' ''12345678900'' ''h'' 0,
       CriarConta 1 CORRENTE 7 1, CriarTransacao 1 DEPOSITO 1000 None 2,
       CriarTransacao 1 DEPOSITO 500 None 3, CriarTransacao 1 SAQUE 200 None 4]) 1 =
     Inr [\<lparr> t_id = 1, t_conta_id = 1, t_tipo = ''deposito'', t_valor = 1000, t_descricao = None,
         t_saldo_anterior = 0, t_saldo_posterior = 1000, t_data_transacao = 2 \<rparr>,
       \<lparr> t_id = 2, t_conta_id = 1, t_tipo = ''deposito'', t_valor = 500, t_descricao = None,
         t_saldo_anterior = 1000, t_saldo_posterior = 1500, t_data_transacao = 3 \<rparr>,
       \<lparr> t_id = 3, t_conta_id = 1, t_tipo = ''saque'', t_valor = 200, t_descricao = None,
         t_saldo_anterior = 1500, t_saldo_posterior = 1300, t_data_transacao = 4 \<rparr>] \<and>
   sorted_wrt (<) (map t_id [\<lparr> t_id = 1, t_conta_id = 1, t_tipo = ''deposito'', t_valor = 1000, t_descricao = None,
         t_saldo_anterior = 0, t_saldo_posterior = 1000, t_data_transacao = 2 \<rparr>,
       \<lparr> t_id = 2, t_conta_id = 1, t_tipo = ''deposito'', t_valor = 500, t_descricao = None,
         t_saldo_anterior = 1000, t_saldo_posterior = 1500, t_data_transacao = 3 \<rparr>,
       \<lparr> t_id = 3, t_conta_id = 1, t_tipo = ''saque'', t_valor = 200, t_descricao = None,
         t_saldo_anterior = 1500, t_saldo_posterior = 1300, t_data_transacao = 4 \<rparr>]) \<and>
   contas (exec [CriarUsuario ''Joao da Silva'' ''12345678900'' ''h'' 0,
       CriarConta 1 CORRENTE 7 1, CriarTransacao 1 DEPOSITO 1000 None 2,
       CriarTransacao 1 DEPOSITO 500 None 3, CriarTransacao 1 SAQUE 200 None 4]) 9 = None \<and>
   obter_transacoes_por_conta (exec [CriarUsuario ''Joao da Silva'' ''12345678900'' ''h'' 0,
       CriarConta 1 CORRENTE 7 1, CriarTransacao 1 DEPOSITO 1000 None 2,
       CriarTransacao 1 DEPOSITO 500 None 3, CriarTransacao 1 SAQUE 200 None 4]) 9 = Inr []"
proof -
  let ?ops = "[CriarUsuario ''Joao da Silva'' ''12345678900'' ''h'' 0,
       CriarConta 1 CORRENTE 7 1, CriarTransacao 1 DEPOSITO 1000 None 2,
       CriarTransacao 1 DEPOSITO 500 None 3, CriarTransacao 1 SAQUE 200 None 4]"
  let ?ts = "[\<lparr> t_id = 1, t_conta_id = 1, t_tipo = ''deposito'', t_valor = 1000, t_descricao = None,
         t_saldo_anterior = 0, t_saldo_posterior = 1000, t_data_transacao = 2 \<rparr>,
       \<lparr> t_id = 2, t_conta_id = 1, t_tipo = ''deposito'', t_valor = 500, t_descricao = None,
         t_saldo_anterior = 1000, t_saldo_posterior = 1500, t_data_transacao = 3 \<rparr>,
       \<lparr> t_id = 3, t_conta_id = 1, t_tipo = ''saque'', t_valor = 200, t_descricao = None,
         t_saldo_anterior = 1500, t_saldo_posterior = 1300, t_data_transacao = 4 \<rparr>]"
  have a: "obter_transacoes_por_conta (exec ?ops) 1 = Inr ?ts" by code_simp
  have n: "contas (exec ?ops) 9 = None" by code_simp
  from obter_transacoes_em_ordem [of ?ops 1] a
  have 1: "sorted_wrt (<) (map t_id ?ts)" by auto
  from obter_transacoes_em_ordem [of ?ops 9] n
  have 2: "obter_transacoes_por_conta (exec ?ops) 9 = Inr []" by auto
  from a 1 n 2 show ?thesis by blast
qed

theorem obter_estatisticas_somas_witness:
  "obter_estatisticas_conta (exec [CriarUsuario ''Joao da Silva'' ''12345678900'' ''h'' 0,
       CriarConta 1 CORRENTE 7 1, CriarTransacao 1 DEPOSITO 1000 None 2,
       CriarTransacao 1 DEPOSITO 500 None 3, CriarTransacao 1 SAQUE 200 None 4]) 1 =
     Inr \<lparr> total_depositos = 1500, total_saques = 200, quantidade_transacoes = 3 \<rparr>"
proof -
  let ?ops = "[CriarUsuario ''Joao da Silva'' ''12345678900'' ''h'' 0,
       CriarConta 1 CORRENTE 7 1, CriarTransacao 1 DEPOSITO 1000 None 2,
       CriarTransacao 1 DEPOSITO 500 None 3, CriarTransacao 1 SAQUE 200 None 4]"
  let ?ts = "[\<lparr> t_id = 1, t_conta_id = 1, t_tipo = ''deposito'', t_valor = 1000, t_descricao = None,
         t_saldo_anterior = 0, t_saldo_posterior = 1000, t_data_transacao = 2 \<rparr>,
       \<lparr> t_id = 2, t_conta_id = 1, t_tipo = ''deposito'', t_valor = 500, t_descricao = None,
         t_saldo_anterior = 1000, t_saldo_posterior = 1500, t_data_transacao = 3 \<rparr>,
       \<lparr> t_id = 3, t_conta_id = 1, t_tipo = ''saque'', t_valor = 200, t_descricao = None,
         t_saldo_anterior = 1500, t_saldo_posterior = 1300, t_data_transacao = 4 \<rparr>]"
  have a: "obter_transacoes_por_conta (exec ?ops) 1 = Inr ?ts" by code_simp
  have r: "round2 1500 = 1500" "round2 200 = 200" by code_simp+
  from obter_estatisticas_somas [of ?ops 1] a r show ?thesis by auto
qed

section \<open>The ledger of the core operations\<close>

text \<open>
  Runs of the core operations alone (\<open>criar_usuario\<close>, \<open>criar_conta\<close>,
  \<open>criar_transacao\<close>): the balance is written only by a committed transaction, so it
  stays the end of the account's chain of recorded balances.
\<close>

lemma replay_ledger_snoc:
  "replay_ledger b (ts @ [t]) =
     (case replay_ledger b ts of
        None \<Rightarrow> None
      | Some x \<Rightarrow> if t_saldo_anterior t = x then Some (t_saldo_posterior t) else None)"
  by (induction ts arbitrary: b) simp_all

lemma replay_ledger_last:
  "replay_ledger b ts = Some x \<Longrightarrow> ts \<noteq> [] \<Longrightarrow> t_saldo_posterior (last ts) = x"
  by (induction ts arbitrary: b) (auto split: if_splits)

lemma ledger_ok_init: "ledger_ok db_init"
  by (simp add: ledger_ok_def db_init_def)

lemma ledger_ok_criar_usuario:
  "ledger_ok s \<Longrightarrow> ledger_ok (snd (criar_usuario s nome cpf h agora))"
  by (simp add: ledger_ok_def criar_usuario_def Let_def obter_transacoes_por_conta_def)

lemma ledger_ok_criar_conta:
  assumes ok: "ledger_ok s" and cok: "contas_ok s"
  shows "ledger_ok (snd (criar_conta s uid tipo digito agora))"
proof (cases "uid \<in> dom (usuarios s) \<and> uid \<notin> dom (usuario_id_to_conta_id s)")
  case False
  with ok show ?thesis by (simp add: criar_conta_fail)
next
  case True
  then have u: "uid \<in> dom (usuarios s)" and n: "uid \<notin> dom (usuario_id_to_conta_id s)"
    by simp_all
  from ok have a: "\<And>k c. contas s k = Some c \<Longrightarrow>
      \<exists>ts. obter_transacoes_por_conta s k = Inr ts \<and> replay_ledger 0 ts = Some (c_saldo c)"
    unfolding ledger_ok_def by blast
  show ?thesis
    unfolding ledger_ok_def
  proof (intro allI impI)
    fix k c
    assume h: "contas (snd (criar_conta s uid tipo digito agora)) k = Some c"
    show "\<exists>ts. obter_transacoes_por_conta (snd (criar_conta s uid tipo digito agora)) k = Inr ts \<and>
               replay_ledger 0 ts = Some (c_saldo c)"
    proof (cases "k = conta_id_counter s")
      case True
      with h show ?thesis
        by (auto simp: criar_conta_commit [OF u n] obter_transacoes_por_conta_def)
    next
      case False
      with h have "contas s k = Some c" by (simp add: criar_conta_commit [OF u n])
      from a [OF this] False show ?thesis
        by (simp add: criar_conta_commit [OF u n] obter_transacoes_por_conta_def)
    qed
  qed
qed

lemma ledger_ok_criar_transacao:
  assumes ok: "ledger_ok s" and cok: "contas_ok s" and tok: "transacoes_ok s"
  shows "ledger_ok (snd (criar_transacao s cid tipo v d agora))"
proof (cases "contas s cid")
  case None
  with ok show ?thesis by (simp add: criar_transacao_not_found)
next
  case (Some c)
  from contas_ok_index [OF cok Some] obtain l where l: "conta_id_to_transacoes s cid = Some l" ..
  from cok Some have r: "round2 (c_saldo c) = c_saldo c" unfolding contas_ok_def by blast
  from ok have a: "\<And>k c. contas s k = Some c \<Longrightarrow>
      \<exists>ts. obter_transacoes_por_conta s k = Inr ts \<and> replay_ledger 0 ts = Some (c_saldo c)"
    unfolding ledger_ok_def by blast
  show ?thesis
  proof (cases "tipo = SAQUE \<and> c_saldo c < v")
    case True
    with ok Some show ?thesis by (simp add: criar_transacao_insufficient)
  next
    case False
    note commit = criar_transacao_commit [OF Some l False, of d agora]
    show ?thesis
      unfolding ledger_ok_def
    proof (intro allI impI)
      fix k c'
      let ?s' = "snd (criar_transacao s cid tipo v d agora)"
      assume h: "contas ?s' k = Some c'"
      show "\<exists>ts. obter_transacoes_por_conta ?s' k = Inr ts \<and>
                 replay_ledger 0 ts = Some (c_saldo c')"
      proof (cases "k = cid")
        case True
        from a [OF Some] obtain ts where ts: "obter_transacoes_por_conta s cid = Inr ts"
          and rp: "replay_ledger 0 ts = Some (c_saldo c)" by blast
        obtain t where t: "criar_transacao s cid tipo v d agora = (Inr t, ?s')"
          by (simp add: commit)
        from t have ta: "t_saldo_anterior t = c_saldo c"
          and tp: "t_saldo_posterior t =
                     round2 (if tipo = SAQUE then c_saldo c - v else c_saldo c + v)"
          by (auto simp: commit r)
        from h True have sp: "c_saldo c' =
                     round2 (if tipo = SAQUE then c_saldo c - v else c_saldo c + v)"
          by (auto simp: commit)
        from obter_transacoes_append [OF tok cok t ts] True
        have "obter_transacoes_por_conta ?s' k = Inr (ts @ [t])" by simp
        moreover have "replay_ledger 0 (ts @ [t]) = Some (c_saldo c')"
          by (simp add: replay_ledger_snoc rp ta tp sp)
        ultimately show ?thesis by blast
      next
        case False
        with h have "contas s k = Some c'" by (simp add: commit)
        from a [OF this] obter_transacoes_other [OF tok cok False] show ?thesis by simp
      qed
    qed
  qed
qed

lemma ledger_ok_exec: "list_all core_op ops \<Longrightarrow> ledger_ok (exec ops)"
proof (induction ops rule: rev_induct)
  case Nil
  show ?case by (simp add: exec_Nil ledger_ok_init)
next
  case (snoc x xs)
  then have ih: "ledger_ok (exec xs)" and cx: "core_op x" by simp_all
  have cok: "contas_ok (exec xs)" and tok: "transacoes_ok (exec xs)"
    using wf_exec [of xs] by (simp_all add: wf_def)
  from cx show ?case
    by (cases x)
       (simp_all add: exec_snoc ledger_ok_criar_usuario ledger_ok_criar_conta [OF ih cok]
          ledger_ok_criar_transacao [OF ih cok tok] ih)
qed

text \<open>
  Claim C3. After any run of core operations and for every account, replaying the list
  returned by \<open>obter_transacoes_por_conta\<close> from the initial balance 0, each
  transaction's balance-before meeting the balance-after of the one before it, ends at the
  account's current balance; when the list is not empty, the balance-after of its last
  transaction is the current balance.
\<close>

theorem extrato_reconstroi_saldo:
  assumes "list_all core_op ops" and "contas (exec ops) conta_id = Some conta"
  shows "\<exists>ts. obter_transacoes_por_conta (exec ops) conta_id = Inr ts \<and>
           replay_ledger 0 ts = Some (c_saldo conta) \<and>
           (ts \<noteq> [] \<longrightarrow> t_saldo_posterior (last ts) = c_saldo conta)"
proof -
  from ledger_ok_exec [OF assms(1)] assms(2)
  obtain ts where ts: "obter_transacoes_por_conta (exec ops) conta_id = Inr ts"
    and rp: "replay_ledger 0 ts = Some (c_saldo conta)"
    unfolding ledger_ok_def by blast
  from replay_ledger_last [OF rp] have "ts \<noteq> [] \<longrightarrow> t_saldo_posterior (last ts) = c_saldo conta"
    by blast
  with ts rp show ?thesis by blast
qed

theorem extrato_reconstroi_saldo_witness:
  "list_all core_op [CriarUsuario ''Joao da Silva'' ''12345678900'' ''h'' 0,
       CriarConta 1 CORRENTE 7 1, CriarTransacao 1 DEPOSITO 1000 None 2,
       CriarTransacao 1 DEPOSITO 500 None 3, CriarTransacao 1 SAQUE 200 None 4] \<and>
   map_option c_saldo (contas (exec [CriarUsuario ''Joao da Silva'' ''12345678900'' ''h'' 0,
       CriarConta 1 CORRENTE 7 1, CriarTransacao 1 DEPOSITO 1000 None 2,
       CriarTransacao 1 DEPOSITO 500 None 3, CriarTransacao 1 SAQUE 200 None 4]) 1) = Some 1300 \<and>
   map_sum id (replay_ledger 0) (obter_transacoes_por_conta (exec [CriarUsuario ''Joao da Silva'' ''12345678900'' ''h'' 0,
       CriarConta 1 CORRENTE 7 1, CriarTransacao 1 DEPOSITO 1000 None 2,
       CriarTransacao 1 DEPOSITO 500 None 3, CriarTransacao 1 SAQUE 200 None 4]) 1) = Inr (Some 1300) \<and>
   map_sum id (\<lambda>ts. t_saldo_posterior (last ts)) (obter_transacoes_por_conta (exec [CriarUsuario ''Joao da Silva'' ''12345678900'' ''h'' 0,
       CriarConta 1 CORRENTE 7 1, CriarTransacao 1 DEPOSITO 1000 None 2,
       CriarTransacao 1 DEPOSITO 500 None 3, CriarTransacao 1 SAQUE 200 None 4]) 1) =
     Inr 1300"
proof -
  let ?ops = "[CriarUsuario ''Joao da Silva'' ''12345678900'' ''h'' 0,
       CriarConta 1 CORRENTE 7 1, CriarTransacao 1 DEPOSITO 1000 None 2,
       CriarTransacao 1 DEPOSITO 500 None 3, CriarTransacao 1 SAQUE 200 None 4]"
  have a: "list_all core_op ?ops" by simp
  have b: "map_option c_saldo (contas (exec ?ops) 1) = Some 1300" by code_simp
  then obtain c where c: "contas (exec ?ops) 1 = Some c" and s: "c_saldo c = 1300" by auto
  have n: "map_sum id length (obter_transacoes_por_conta (exec ?ops) 1) = Inr 3" by code_simp
  from extrato_reconstroi_saldo [OF a c] s n a b show ?thesis by auto
qed

section \<open>Non-negative balances\<close>






section \<open>Amounts that round to zero\<close>

text \<open>
  Claim C4. The schema validator compares the amount with 0 before it rounds, so a request
  of 0.004 passes, is rounded to 0.00 and reaches \<open>criar_transacao\<close>, which checks no
  amount: the deposit is committed with amount 0.00. The response schema, which has the
  same constraint, then refuses the committed record, and the handler answers 400 with the
  transaction in the store. Called on its own, the engine commits a deposit of 0 and a
  withdrawal of -5 alike.
\<close>

theorem deposito_arredondado_a_zero:
  "transacao_base (Fin (4 / 1000)) None = Some (0, None) \<and>
   transacoes (exec [CriarUsuario ''Joao da Silva'' ''12345678900'' ''h'' 0,
       CriarConta 1 CORRENTE 7 1]) 1 = None \<and>
   map_option c_saldo (contas (exec [CriarUsuario ''Joao da Silva'' ''12345678900'' ''h'' 0,
       CriarConta 1 CORRENTE 7 1]) 1) = Some 0 \<and>
   fst (realizar_deposito (exec [CriarUsuario ''Joao da Silva'' ''12345678900'' ''h'' 0,
       CriarConta 1 CORRENTE 7 1]) ''12345678900'' (Fin (4 / 1000)) None 2) = Inl Http400 \<and>
   transacoes (snd (realizar_deposito (exec [CriarUsuario ''Joao da Silva'' ''12345678900'' ''h'' 0,
       CriarConta 1 CORRENTE 7 1]) ''12345678900'' (Fin (4 / 1000)) None 2)) 1 =
     Some \<lparr> t_id = 1, t_conta_id = 1, t_tipo = ''deposito'', t_valor = 0, t_descricao = None,
            t_saldo_anterior = 0, t_saldo_posterior = 0, t_data_transacao = 2 \<rparr> \<and>
   fst (criar_transacao (exec [CriarUsuario ''Joao da Silva'' ''12345678900'' ''h'' 0,
       CriarConta 1 CORRENTE 7 1]) 1 DEPOSITO 0 None 2) =
     Inr \<lparr> t_id = 1, t_conta_id = 1, t_tipo = ''deposito'', t_valor = 0, t_descricao = None,
           t_saldo_anterior = 0, t_saldo_posterior = 0, t_data_transacao = 2 \<rparr> \<and>
   \<not> isl (fst (criar_transacao (exec [CriarUsuario ''Joao da Silva'' ''12345678900'' ''h'' 0,
       CriarConta 1 CORRENTE 7 1]) 1 SAQUE (- 5) None 2)) \<and>
   map_option c_saldo (contas (snd (criar_transacao (exec [CriarUsuario ''Joao da Silva'' ''12345678900'' ''h'' 0,
       CriarConta 1 CORRENTE 7 1]) 1 SAQUE (- 5) None 2)) 1) = Some 5"
  by code_simp

end
